theory Spec2Isabelle
  imports Main "HOL-Library.Sublist" "HOL-Library.AList"
begin

section \<open>Python strings and the library functions the scanner calls\<close>

text \<open>
  A Python \<open>str\<close> is modelled as a \<open>string\<close> whose characters are the code points
  below 256. The library functions used by \<open>AssureDependence.py\<close> (\<open>str.lower\<close>,
  \<open>str.split\<close>, \<open>str.startswith\<close>, \<open>in\<close>, \<open>int\<close>, \<open>str.strip\<close>, \<open>str.splitlines\<close>)
  are written out for these code points. \<open>v.startswith(p)\<close> is \<open>prefix p v\<close>.
  The \<open>print\<close> calls of the scanner write to standard output and change nothing else;
  they are left out.
\<close>

definition bs :: char where
  "bs = CHR 0x5C"

definition is_space :: "char \<Rightarrow> bool" where
  "is_space c = (c \<in> set [CHR 0x09, CHR 0x0A, CHR 0x0B, CHR 0x0C, CHR 0x0D,
     CHR 0x1C, CHR 0x1D, CHR 0x1E, CHR 0x1F, CHR 0x20, CHR 0x85, CHR 0xA0])"

text \<open>The white space \<open>int\<close> accepts around a number: \<open>int\<close> does not strip 0x1C..0x1F.\<close>

definition is_int_space :: "char \<Rightarrow> bool" where
  "is_int_space c = (c \<in> set [CHR 0x09, CHR 0x0A, CHR 0x0B, CHR 0x0C, CHR 0x0D,
     CHR 0x20, CHR 0x85, CHR 0xA0])"

definition is_digit :: "char \<Rightarrow> bool" where
  "is_digit c = (48 \<le> (of_char c :: nat) \<and> (of_char c :: nat) \<le> 57)"

definition digit_val :: "char \<Rightarrow> nat" where
  "digit_val c = of_char c - 48"

definition lower_chr :: "char \<Rightarrow> char" where
  "lower_chr c = (let n = (of_char c :: nat) in
     if (65 \<le> n \<and> n \<le> 90) \<or> (192 \<le> n \<and> n \<le> 222 \<and> n \<noteq> 215)
     then char_of (n + 32) else c)"

definition lower :: "string \<Rightarrow> string" where
  "lower s = map lower_chr s"

text \<open>\<open>sub in s\<close>: \<open>sub\<close> occurs in \<open>s\<close> as a contiguous block.\<close>

fun contains :: "string \<Rightarrow> string \<Rightarrow> bool" where
  "contains [] sub = (sub = [])"
| "contains (c # cs) sub = (prefix sub (c # cs) \<or> contains cs sub)"

text \<open>\<open>s.split(c)\<close> for a one-character separator: never the empty list.\<close>

fun split_chr :: "char \<Rightarrow> string \<Rightarrow> string list" where
  "split_chr c [] = [[]]"
| "split_chr c (x # xs) =
     (if x = c then [] # split_chr c xs
      else (case split_chr c xs of
              p # ps \<Rightarrow> (x # p) # ps
            | [] \<Rightarrow> [[x]]))"

text \<open>\<open>s.split(c)[0]\<close>, which is always there.\<close>

definition first_part :: "char \<Rightarrow> string \<Rightarrow> string" where
  "first_part c s = (case split_chr c s of [] \<Rightarrow> [] | p # ps \<Rightarrow> p)"

text \<open>\<open>xs[i]\<close> for \<open>i \<ge> 0\<close>: \<open>None\<close> stands for IndexError.\<close>

definition index :: "'a list \<Rightarrow> nat \<Rightarrow> 'a option" where
  "index xs i = (if i < length xs then Some (xs ! i) else None)"

text \<open>
  \<open>int(s)\<close> in base 10: white space is stripped at both ends, then an optional sign,
  then digits, where a single underscore may stand between two digits. \<open>None\<close> stands
  for ValueError. (The interpreter's limit on the number of digits is not modelled.)
\<close>

fun digits_from :: "nat \<Rightarrow> string \<Rightarrow> nat option" where
  "digits_from acc [] = Some acc"
| "digits_from acc (c # cs) =
     (if is_digit c then digits_from (10 * acc + digit_val c) cs
      else if c = CHR ''_'' then
        (case cs of
           [] \<Rightarrow> None
         | d # ds \<Rightarrow> if is_digit d then digits_from (10 * acc + digit_val d) ds else None)
      else None)"

definition unsigned_int :: "string \<Rightarrow> nat option" where
  "unsigned_int s =
     (case s of
        [] \<Rightarrow> None
      | c # cs \<Rightarrow> if is_digit c then digits_from (digit_val c) cs else None)"

definition int_strip :: "string \<Rightarrow> string" where
  "int_strip s = rev (dropWhile is_int_space (rev (dropWhile is_int_space s)))"

definition py_int :: "string \<Rightarrow> int option" where
  "py_int s =
     (case int_strip s of
        [] \<Rightarrow> None
      | c # cs \<Rightarrow>
          if c = CHR ''+'' then map_option int (unsigned_int cs)
          else if c = CHR ''-'' then map_option (\<lambda>n. - int n) (unsigned_int cs)
          else map_option int (unsigned_int (c # cs)))"

section \<open>The end-of-life checkers\<close>

text \<open>
  \<open>check_java_eol\<close>: \<open>int(v.split('.')[1]) < 11\<close> inside a bare \<open>except\<close>, so IndexError
  and ValueError both give \<open>'Unknown'\<close>.
\<close>

definition check_java_eol :: "string \<Rightarrow> string" where
  "check_java_eol v =
     (case index (split_chr CHR ''.'' v) 1 of
        None \<Rightarrow> ''Unknown''
      | Some c \<Rightarrow>
          (case py_int c of
             None \<Rightarrow> ''Unknown''
           | Some n \<Rightarrow> if n < 11 then ''EOL'' else ''Supported''))"

text \<open>
  The list literal of \<open>check_dotnet_core_eol\<close> ends in \<open>'6.0' '7.0'\<close> with no comma
  between the two: Python joins adjacent string literals, so the list has nine entries.
\<close>

definition eol_versions :: "string list" where
  "eol_versions = [''1.0'', ''1.1'', ''2.0'', ''2.1'', ''2.2'', ''3.0'', ''3.1'', ''5.0'',
     ''6.0'' @ ''7.0'']"

definition check_dotnet_core_eol :: "string \<Rightarrow> string" where
  "check_dotnet_core_eol v =
     (if list_ex (\<lambda>p. prefix p v) eol_versions then ''EOL'' else ''Supported'')"

definition check_mssql_eol :: "string \<Rightarrow> string" where
  "check_mssql_eol v =
     (case index (split_chr CHR ''.'' v) 0 of
        None \<Rightarrow> ''Unknown''
      | Some c \<Rightarrow>
          (case py_int c of
             None \<Rightarrow> ''Unknown''
           | Some major_version \<Rightarrow> if major_version < 13 then ''EOL'' else ''Supported''))"

definition check_mysql_eol :: "string \<Rightarrow> string" where
  "check_mysql_eol v = (if prefix ''5.'' v then ''EOL'' else ''Supported'')"

definition check_postgresql_eol :: "string \<Rightarrow> string" where
  "check_postgresql_eol v =
     (case index (split_chr CHR ''.'' v) 0 of
        None \<Rightarrow> ''Unknown''
      | Some c \<Rightarrow>
          (case py_int c of
             None \<Rightarrow> ''Unknown''
           | Some major_version \<Rightarrow> if major_version < 12 then ''EOL'' else ''Supported''))"

section \<open>Exceptions, values and dictionaries\<close>

text \<open>
  The exceptions the operating-system lookups and the scanner's own expressions raise.
  All of them derive from \<open>Exception\<close>. FileNotFoundError and PermissionError derive from
  OSError; \<open>OSError\<close> below stands for every other OSError. AccessDenied and
  NoSuchProcess are psutil's; TimeoutExpired is \<open>subprocess.TimeoutExpired\<close>.
\<close>

datatype exc =
    FileNotFoundError | PermissionError | OSError
  | TimeoutExpired | AccessDenied | NoSuchProcess
  | AttributeError | IndexError | ValueError | UnicodeDecodeError

fun catches_Exception :: "exc \<Rightarrow> bool" where
  "catches_Exception e = True"

fun catches_FileNotFoundError :: "exc \<Rightarrow> bool" where
  "catches_FileNotFoundError FileNotFoundError = True"
| "catches_FileNotFoundError e = False"

fun catches_OSError :: "exc \<Rightarrow> bool" where
  "catches_OSError FileNotFoundError = True"
| "catches_OSError PermissionError = True"
| "catches_OSError OSError = True"
| "catches_OSError e = False"

text \<open>A value stored in a record of the report, or read from the registry.\<close>

datatype pyval = Str string | IntVal int | NoneVal

text \<open>
  A \<open>dict\<close> with string keys keeps its keys in insertion order: an association list
  with distinct keys. \<open>d[k] = v\<close> replaces the value of a key that is there, in place,
  and puts a new key last. \<open>d.update(other)\<close> stores the items of \<open>other\<close> in their order.
  \<open>d[k].append(r)\<close> on a \<open>defaultdict(list)\<close> creates the empty list under a missing key
  first.
\<close>

type_synonym 'v dict = "(string \<times> 'v) list"

type_synonym pyrecord = "pyval dict"

definition dict_set :: "string \<Rightarrow> 'v \<Rightarrow> 'v dict \<Rightarrow> 'v dict" where
  "dict_set k v d = AList.update k v d"

definition dict_update :: "'v dict \<Rightarrow> 'v dict \<Rightarrow> 'v dict" where
  "dict_update d other = fold (\<lambda>(k, v). dict_set k v) other d"

definition dict_append :: "string \<Rightarrow> 'r \<Rightarrow> 'r list dict \<Rightarrow> 'r list dict" where
  "dict_append k r d =
     (case map_of d k of
        None \<Rightarrow> d @ [(k, [r])]
      | Some rs \<Rightarrow> dict_set k (rs @ [r]) d)"

text \<open>\<open>f"{x}"\<close> of a value that is a string or \<open>None\<close>.\<close>

fun format_opt :: "string option \<Rightarrow> string" where
  "format_opt None = ''None''"
| "format_opt (Some s) = s"

section \<open>Regular expressions\<close>

text \<open>
  Each pattern of the source is written as a matcher anchored at the start of its
  argument that returns the groups; \<open>re_search\<close> tries the matcher at every position from
  the left, as \<open>re.search\<close> does. \<open>lit p s\<close> consumes the literal \<open>p\<close>.
\<close>

fun re_search :: "(string \<Rightarrow> 'a option) \<Rightarrow> string \<Rightarrow> 'a option" where
  "re_search m [] = m []"
| "re_search m (c # cs) =
     (case m (c # cs) of
        Some r \<Rightarrow> Some r
      | None \<Rightarrow> re_search m cs)"

fun lit :: "string \<Rightarrow> string \<Rightarrow> string option" where
  "lit [] s = Some s"
| "lit (p # ps) [] = None"
| "lit (p # ps) (c # cs) = (if p = c then lit ps cs else None)"

text \<open>
  The pattern of \<open>get_dotnet_core_version_from_process\<close>:
  \<^verbatim>\<open>\\dotnet\\shared\\(microsoft\.(?:netcore|aspnetcore)\.app)\\([^\\\\]+)\\coreclr\.dll\<close>.
  \<open>core_tail\<close> is the part after the alternative and returns group 2, a run of
  characters other than the backslash, which the backslash of \<open>\coreclr.dll\<close> must follow.
\<close>

definition core_tail :: "string \<Rightarrow> string option" where
  "core_tail s =
     (case lit (''.app'' @ [bs]) s of
        None \<Rightarrow> None
      | Some r \<Rightarrow>
          (let v = takeWhile (\<lambda>c. c \<noteq> bs) r in
           if v \<noteq> [] \<and> prefix (bs # ''coreclr.dll'') (dropWhile (\<lambda>c. c \<noteq> bs) r)
           then Some v else None))"

definition core_prefix :: string where
  "core_prefix = bs # ''dotnet'' @ bs # ''shared'' @ bs # ''microsoft.''"

definition core_match :: "string \<Rightarrow> (string \<times> string) option" where
  "core_match s =
     (case lit core_prefix s of
        None \<Rightarrow> None
      | Some r \<Rightarrow>
          (case Option.bind (lit ''netcore'' r) core_tail of
             Some v \<Rightarrow> Some (''microsoft.netcore.app'', v)
           | None \<Rightarrow>
               (case Option.bind (lit ''aspnetcore'' r) core_tail of
                  Some v \<Rightarrow> Some (''microsoft.aspnetcore.app'', v)
                | None \<Rightarrow> None)))"

text \<open>\<open>xs[-k]\<close> for \<open>k > 0\<close>: \<open>None\<close> stands for IndexError.\<close>

definition index_back :: "'a list \<Rightarrow> nat \<Rightarrow> 'a option" where
  "index_back xs k = (if 0 < k \<and> k \<le> length xs then Some (xs ! (length xs - k)) else None)"

section \<open>Running processes\<close>

text \<open>
  What psutil reports of one process: \<open>proc.info\<close> (\<open>pid\<close>, \<open>name\<close>, \<open>exe\<close>; psutil puts
  \<open>None\<close> where it could not read a field), the paths of \<open>proc.memory_maps()\<close> or the
  exception it raises, and the outcome of running the executable with \<open>-version\<close>
  (return code and output, or the exception \<open>subprocess.run\<close> raises; called with both
  \<open>capture_output=True\<close> and \<open>stderr=subprocess.STDOUT\<close>, as the source does, it raises
  ValueError).
\<close>

record process =
  proc_pid :: int
  proc_name :: "string option"
  proc_exe :: "string option"
  proc_memory_maps :: "exc + string list"
  proc_run_version :: "exc + int \<times> string"

text \<open>
  The loop of \<open>get_dotnet_core_version_from_process\<close> over the loaded modules. The result
  \<open>None\<close> is the pair \<open>(None, None)\<close>, \<open>Some (version, path)\<close> the pair of two strings.
\<close>

definition is_self_contained :: "string \<Rightarrow> bool" where
  "is_self_contained path_lower \<longleftrightarrow>
     contains path_lower ''coreclr.dll'' \<and> \<not> contains path_lower ''microsoft.net''"

fun scan_modules :: "process \<Rightarrow> string list \<Rightarrow> exc + (string \<times> string) option" where
  "scan_modules proc [] = Inr None"
| "scan_modules proc (path # dlls) =
     (let path_lower = lower path in
      case re_search core_match path_lower of
        Some (g1, g2) \<Rightarrow>
          (case index_back (split_chr CHR ''.'' g1) 2 of
             None \<Rightarrow> Inl IndexError
           | Some k \<Rightarrow> Inr (Some (g2 @ '' ('' @ k @ '')'', path)))
      | None \<Rightarrow>
          if is_self_contained path_lower
          then Inr (Some (''Self-Contained ('' @ format_opt (proc_name proc) @ '')'', path))
          else scan_modules proc dlls)"

definition get_dotnet_core_version_from_process ::
    "process \<Rightarrow> exc + (string \<times> string) option" where
  "get_dotnet_core_version_from_process proc =
     (case proc_memory_maps proc of
        Inl e \<Rightarrow> if e = AccessDenied \<or> e = NoSuchProcess then Inr None else Inl e
      | Inr dlls \<Rightarrow> scan_modules proc dlls)"

section \<open>The host\<close>

text \<open>
  A file-system path is the list of its parts, the anchor (\<open>C:\\<close>) first. pathlib's
  \<open>iterdir\<close>, \<open>is_file\<close> and \<open>is_dir\<close> raise OSError and its subclasses only.
\<close>

type_synonym path = "string list"

datatype os_error = OS_FileNotFound | OS_Permission | OS_NotADirectory | OS_Other

text \<open>
  A Windows service as psutil gives it: \<open>name()\<close> and \<open>display_name()\<close> are stored in the
  object, \<open>binpath()\<close> queries the service manager and may raise.
\<close>

record service =
  svc_name :: string
  svc_display_name :: string
  svc_binpath :: "exc + string"

text \<open>
  The answers of the host to the lookups of one scan.
  \<^item> \<open>java_registry\<close>: opening \<open>SOFTWARE\JavaSoft\Java Runtime Environment\<close> raises, or
    gives one entry per index: \<open>EnumKey\<close> raises, or gives the version with the outcome
    of reading \<open>JavaHome\<close> under it (opening the subkey or reading the value raises, or
    the value).
  \<^item> \<open>dotnet_cli\<close>: \<open>subprocess.run(['dotnet', '--list-runtimes'], ..., timeout=10)\<close>
    raises, or gives return code and standard output.
  \<^item> \<open>mssql_registry\<close>: opening \<open>Instance Names\SQL\<close> raises, or gives one entry per
    index: \<open>EnumValue\<close> raises, or gives the instance name with the outcomes of reading
    \<open>CurrentVersion\<close> and \<open>SQLDataRoot\<close> under the instance's keys.
  \<^item> \<open>mysql_services\<close>, \<open>postgresql_services\<close>: \<open>psutil.win_service_iter()\<close> at the two
    places it is called.
  \<^item> \<open>grandparent p\<close> is \<open>str(Path(p).parent.parent)\<close>.
  \<^item> \<open>path_exists\<close>, \<open>iterdir\<close> (the names in a directory), \<open>is_file\<close>, \<open>is_dir\<close>: the
    file system.
  \<^item> \<open>process_iter\<close>: the running processes; \<open>boot_time\<close>: \<open>str(psutil.boot_time())\<close>.
\<close>

record host =
  java_registry :: "exc + (exc + string \<times> (exc + pyval)) list"
  dotnet_cli :: "exc + int \<times> string"
  mssql_registry :: "exc + (exc + string \<times> (exc + pyval) \<times> (exc + pyval)) list"
  mysql_services :: "exc + service list"
  postgresql_services :: "exc + service list"
  grandparent :: "string \<Rightarrow> string"
  path_exists :: "path \<Rightarrow> bool"
  iterdir :: "path \<Rightarrow> os_error + string list"
  is_file :: "path \<Rightarrow> os_error + bool"
  is_dir :: "path \<Rightarrow> os_error + bool"
  process_iter :: "process list"
  boot_time :: string

text \<open>The scanner object: the attributes \<open>__init__\<close> sets.\<close>

record scanner =
  dependencies :: "pyrecord list dict"
  running_processes :: "pyval dict"
  installed_frameworks :: "pyrecord dict"

definition init :: scanner where
  "init = \<lparr>dependencies = [], running_processes = [], installed_frameworks = []\<rparr>"

section \<open>Framework detection\<close>

subsection \<open>Java\<close>

text \<open>
  The loop of \<open>detect_java_installations\<close>. It returns the exception that leaves the
  loop, if any, with \<open>java_installs\<close> as it stands then: the dictionary is updated in
  place, so the handler of the outer \<open>try\<close> returns what was stored before the exception.
\<close>

fun java_loop ::
    "(exc + string \<times> (exc + pyval)) list \<Rightarrow> pyrecord dict \<Rightarrow> exc option \<times> pyrecord dict" where
  "java_loop [] java_installs = (None, java_installs)"
| "java_loop (entry # entries) java_installs =
     (case entry of
        Inl e \<Rightarrow> (Some e, java_installs)
      | Inr (version, home) \<Rightarrow>
          (case home of
             Inl e \<Rightarrow>
               if catches_FileNotFoundError e then java_loop entries java_installs
               else (Some e, java_installs)
           | Inr java_home \<Rightarrow>
               java_loop entries
                 (dict_set (''Java '' @ version)
                    [(''version'', Str version), (''path'', java_home), (''type'', Str ''java''),
                     (''eol_status'', Str (check_java_eol version))]
                    java_installs)))"

definition detect_java_installations :: "host \<Rightarrow> exc + pyrecord dict" where
  "detect_java_installations h =
     (case java_registry h of
        Inl e \<Rightarrow> if catches_Exception e then Inr [] else Inl e
      | Inr entries \<Rightarrow>
          (case java_loop entries [] of
             (Some e, java_installs) \<Rightarrow> if catches_Exception e then Inr java_installs else Inl e
           | (None, java_installs) \<Rightarrow> Inr java_installs))"

subsection \<open>.NET Core\<close>

definition strip :: "string \<Rightarrow> string" where
  "strip s = rev (dropWhile is_space (rev (dropWhile is_space s)))"

definition is_linebreak :: "char \<Rightarrow> bool" where
  "is_linebreak c = (c \<in> set [CHR 0x0A, CHR 0x0B, CHR 0x0C, CHR 0x0D,
     CHR 0x1C, CHR 0x1D, CHR 0x1E, CHR 0x85])"

text \<open>\<open>s.splitlines()\<close>: \<open>\r\n\<close> is one line break; no empty last line.\<close>

fun splitlines_from :: "string \<Rightarrow> string \<Rightarrow> string list" where
  "splitlines_from cur [] = (if cur = [] then [] else [rev cur])"
| "splitlines_from cur (c # cs) =
     (if is_linebreak c then
        (case cs of
           [] \<Rightarrow> [rev cur]
         | d # ds \<Rightarrow>
             if c = CHR 0x0D \<and> d = CHR 0x0A then rev cur # splitlines_from [] ds
             else rev cur # splitlines_from [] (d # ds))
      else splitlines_from (c # cur) cs)"

definition splitlines :: "string \<Rightarrow> string list" where
  "splitlines s = splitlines_from [] s"

text \<open>
  \<^verbatim>\<open>re.match(r'([^\s]+)\s+([^\s]+)\s+\[(.*)\]', line)\<close>: two runs of characters that are
  not white space, each followed by white space, then \<open>[\<close>, then group 3 up to the last
  \<open>]\<close> before a newline.
\<close>

definition bracket_body :: "string \<Rightarrow> string option" where
  "bracket_body s =
     (let seg = takeWhile (\<lambda>c. c \<noteq> CHR 0x0A) s in
      if CHR '']'' \<in> set seg
      then Some (rev (tl (dropWhile (\<lambda>c. c \<noteq> CHR '']'') (rev seg))))
      else None)"

definition match_runtime_line :: "string \<Rightarrow> (string \<times> string \<times> string) option" where
  "match_runtime_line line =
     (let runtime = takeWhile (\<lambda>c. \<not> is_space c) line;
          r1 = dropWhile (\<lambda>c. \<not> is_space c) line;
          r2 = dropWhile is_space r1;
          version = takeWhile (\<lambda>c. \<not> is_space c) r2;
          r3 = dropWhile (\<lambda>c. \<not> is_space c) r2;
          r4 = dropWhile is_space r3
      in if runtime = [] \<or> takeWhile is_space r1 = [] \<or> version = []
            \<or> takeWhile is_space r3 = [] then None
         else (case lit ''['' r4 of
                 None \<Rightarrow> None
               | Some r5 \<Rightarrow> map_option (\<lambda>path. (runtime, version, path)) (bracket_body r5)))"

fun dotnet_loop :: "string list \<Rightarrow> pyrecord dict \<Rightarrow> pyrecord dict" where
  "dotnet_loop [] dotnet_versions = dotnet_versions"
| "dotnet_loop (line # lines) dotnet_versions =
     (if strip line \<noteq> [] then
        (case match_runtime_line line of
           Some (runtime, version, path) \<Rightarrow>
             dotnet_loop lines
               (dict_set (runtime @ '' '' @ version)
                  [(''version'', Str version), (''runtime'', Str runtime), (''path'', Str path),
                   (''type'', Str ''dotnet_core''),
                   (''eol_status'', Str (check_dotnet_core_eol version))]
                  dotnet_versions)
         | None \<Rightarrow> dotnet_loop lines dotnet_versions)
      else dotnet_loop lines dotnet_versions)"

text \<open>The \<open>try\<close> of \<open>detect_dotnet_core\<close> has the one handler \<open>except FileNotFoundError\<close>.\<close>

definition detect_dotnet_core :: "host \<Rightarrow> exc + pyrecord dict" where
  "detect_dotnet_core h =
     (case dotnet_cli h of
        Inl e \<Rightarrow> if catches_FileNotFoundError e then Inr [] else Inl e
      | Inr (returncode, stdout) \<Rightarrow>
          if returncode = 0 then Inr (dotnet_loop (splitlines stdout) []) else Inr [])"

subsection \<open>SQL engines\<close>

text \<open>
  The loop of \<open>detect_sql_server_instances\<close>. \<open>version.split('.')\<close> raises AttributeError
  when the registry value is not a string; the inner handler catches FileNotFoundError
  only, so every other exception leaves the loop.
\<close>

fun mssql_loop ::
    "(exc + string \<times> (exc + pyval) \<times> (exc + pyval)) list \<Rightarrow> pyrecord dict
      \<Rightarrow> exc option \<times> pyrecord dict" where
  "mssql_loop [] sql_server_installs = (None, sql_server_installs)"
| "mssql_loop (entry # entries) sql_server_installs =
     (case entry of
        Inl e \<Rightarrow> (Some e, sql_server_installs)
      | Inr (name, version_value, path_value) \<Rightarrow>
          (case version_value of
             Inl e \<Rightarrow>
               if catches_FileNotFoundError e then mssql_loop entries sql_server_installs
               else (Some e, sql_server_installs)
           | Inr version \<Rightarrow>
               (case path_value of
                  Inl e \<Rightarrow>
                    if catches_FileNotFoundError e then mssql_loop entries sql_server_installs
                    else (Some e, sql_server_installs)
                | Inr path \<Rightarrow>
                    (case version of
                       Str v \<Rightarrow>
                         mssql_loop entries
                           (dict_set
                              (''Microsoft SQL Server '' @ first_part CHR ''.'' v
                                 @ '' (Instance: '' @ name @ '')'')
                              [(''version'', Str v), (''path'', path), (''type'', Str ''mssql''),
                               (''eol_status'', Str (check_mssql_eol v))]
                              sql_server_installs)
                     | _ \<Rightarrow>
                         if catches_FileNotFoundError AttributeError
                         then mssql_loop entries sql_server_installs
                         else (Some AttributeError, sql_server_installs)))))"

definition detect_sql_server_instances :: "host \<Rightarrow> exc + pyrecord dict" where
  "detect_sql_server_instances h =
     (case mssql_registry h of
        Inl e \<Rightarrow> if catches_Exception e then Inr [] else Inl e
      | Inr entries \<Rightarrow>
          (case mssql_loop entries [] of
             (Some e, sql_server_installs) \<Rightarrow>
               if catches_Exception e then Inr sql_server_installs else Inl e
           | (None, sql_server_installs) \<Rightarrow> Inr sql_server_installs))"

text \<open>\<^verbatim>\<open>(\d+\.\d+\.\d+)\<close>, anchored.\<close>

definition mysql_version :: "string \<Rightarrow> string option" where
  "mysql_version s =
     (let a = takeWhile is_digit s in
      if a = [] then None
      else (case lit ''.'' (dropWhile is_digit s) of
              None \<Rightarrow> None
            | Some r \<Rightarrow>
                (let b = takeWhile is_digit r in
                 if b = [] then None
                 else (case lit ''.'' (dropWhile is_digit r) of
                         None \<Rightarrow> None
                       | Some r' \<Rightarrow>
                           (let c = takeWhile is_digit r' in
                            if c = [] then None else Some (a @ ''.'' @ b @ ''.'' @ c))))))"

text \<open>\<^verbatim>\<open>(\d+(\.\d+)?)\<close>, anchored.\<close>

definition postgresql_version :: "string \<Rightarrow> string option" where
  "postgresql_version s =
     (let a = takeWhile is_digit s in
      if a = [] then None
      else (case lit ''.'' (dropWhile is_digit s) of
              None \<Rightarrow> Some a
            | Some r \<Rightarrow>
                (let b = takeWhile is_digit r in
                 if b = [] then Some a else Some (a @ ''.'' @ b))))"

text \<open>
  The loops of \<open>detect_mysql_instances\<close> and \<open>detect_postgresql_instances\<close>. The inner
  handler is \<open>except (psutil.AccessDenied, FileNotFoundError): continue\<close>. \<open>binpath()\<close>
  gives the same answer each time it is called on one service.
\<close>

fun mysql_loop ::
    "(string \<Rightarrow> string) \<Rightarrow> service list \<Rightarrow> pyrecord dict \<Rightarrow> exc option \<times> pyrecord dict" where
  "mysql_loop gp [] mysql_installs = (None, mysql_installs)"
| "mysql_loop gp (service # services) mysql_installs =
     (if prefix ''mysql'' (lower (svc_name service)) then
        (case svc_binpath service of
           Inl e \<Rightarrow>
             if e = AccessDenied \<or> catches_FileNotFoundError e
             then mysql_loop gp services mysql_installs
             else (Some e, mysql_installs)
         | Inr binpath \<Rightarrow>
             (let version =
                    (case re_search mysql_version (svc_display_name service @ binpath) of
                       Some v \<Rightarrow> v
                     | None \<Rightarrow> ''Unknown'');
                  path = gp binpath
              in mysql_loop gp services
                   (dict_set (''MySQL Server '' @ version)
                      [(''version'', Str version), (''path'', Str path), (''type'', Str ''mysql''),
                       (''eol_status'', Str (check_mysql_eol version))]
                      mysql_installs)))
      else mysql_loop gp services mysql_installs)"

definition detect_mysql_instances :: "host \<Rightarrow> exc + pyrecord dict" where
  "detect_mysql_instances h =
     (case mysql_services h of
        Inl e \<Rightarrow> if catches_Exception e then Inr [] else Inl e
      | Inr services \<Rightarrow>
          (case mysql_loop (grandparent h) services [] of
             (Some e, mysql_installs) \<Rightarrow>
               if catches_Exception e then Inr mysql_installs else Inl e
           | (None, mysql_installs) \<Rightarrow> Inr mysql_installs))"

fun postgresql_loop ::
    "(string \<Rightarrow> string) \<Rightarrow> service list \<Rightarrow> pyrecord dict \<Rightarrow> exc option \<times> pyrecord dict" where
  "postgresql_loop gp [] postgres_installs = (None, postgres_installs)"
| "postgresql_loop gp (service # services) postgres_installs =
     (if prefix ''postgresql'' (lower (svc_name service)) then
        (let version =
               (case re_search postgresql_version
                       (svc_name service @ svc_display_name service) of
                  Some v \<Rightarrow> v
                | None \<Rightarrow> ''Unknown'')
         in case svc_binpath service of
              Inl e \<Rightarrow>
                if e = AccessDenied \<or> catches_FileNotFoundError e
                then postgresql_loop gp services postgres_installs
                else (Some e, postgres_installs)
            | Inr binpath \<Rightarrow>
                postgresql_loop gp services
                  (dict_set (''PostgreSQL '' @ version)
                     [(''version'', Str version), (''path'', Str (gp binpath)),
                      (''type'', Str ''postgresql''),
                      (''eol_status'', Str (check_postgresql_eol version))]
                     postgres_installs))
      else postgresql_loop gp services postgres_installs)"

definition detect_postgresql_instances :: "host \<Rightarrow> exc + pyrecord dict" where
  "detect_postgresql_instances h =
     (case postgresql_services h of
        Inl e \<Rightarrow> if catches_Exception e then Inr [] else Inl e
      | Inr services \<Rightarrow>
          (case postgresql_loop (grandparent h) services [] of
             (Some e, postgres_installs) \<Rightarrow>
               if catches_Exception e then Inr postgres_installs else Inl e
           | (None, postgres_installs) \<Rightarrow> Inr postgres_installs))"

text \<open>
  \<open>detect_sql_databases\<close> and \<open>detect_frameworks\<close> have no handler of their own: an
  exception that leaves a detector leaves them too.
\<close>

definition detect_sql_databases :: "host \<Rightarrow> exc + pyrecord dict" where
  "detect_sql_databases h =
     (case detect_sql_server_instances h of
        Inl e \<Rightarrow> Inl e
      | Inr mssql \<Rightarrow>
          (case detect_mysql_instances h of
             Inl e \<Rightarrow> Inl e
           | Inr mysql \<Rightarrow>
               (case detect_postgresql_instances h of
                  Inl e \<Rightarrow> Inl e
                | Inr postgres \<Rightarrow>
                    Inr (dict_update (dict_update (dict_update [] mssql) mysql) postgres))))"

definition detect_frameworks :: "host \<Rightarrow> scanner \<Rightarrow> exc + scanner" where
  "detect_frameworks h self =
     (case detect_java_installations h of
        Inl e \<Rightarrow> Inl e
      | Inr java_versions \<Rightarrow>
          (case detect_dotnet_core h of
             Inl e \<Rightarrow> Inl e
           | Inr dotnet_versions \<Rightarrow>
               (case detect_sql_databases h of
                  Inl e \<Rightarrow> Inl e
                | Inr sql_versions \<Rightarrow>
                    Inr (self\<lparr>installed_frameworks :=
                      dict_update (dict_update (dict_update [] java_versions) dotnet_versions)
                        sql_versions\<rparr>))))"

section \<open>The static scan of the installed applications\<close>

text \<open>
  pathlib on a path given by its parts: \<open>name\<close> is the last part (empty for the bare
  anchor), \<open>suffix\<close> starts at the last dot of the name when that dot is neither its
  first nor its last character, \<open>stem\<close> is the name without the suffix, and \<open>str\<close> joins
  the parts after the anchor with backslashes.
\<close>

definition path_name :: "path \<Rightarrow> string" where
  "path_name p = (if length p < 2 then [] else last p)"

definition rfind_dot :: "string \<Rightarrow> nat option" where
  "rfind_dot s =
     (if CHR ''.'' \<in> set s
      then Some (length s - 1 - length (takeWhile (\<lambda>c. c \<noteq> CHR ''.'') (rev s)))
      else None)"

definition path_suffix :: "path \<Rightarrow> string" where
  "path_suffix p =
     (let name = path_name p in
      case rfind_dot name of
        None \<Rightarrow> []
      | Some i \<Rightarrow> if 0 < i \<and> i < length name - 1 then drop i name else [])"

definition path_stem :: "path \<Rightarrow> string" where
  "path_stem p =
     (let name = path_name p in
      case rfind_dot name of
        None \<Rightarrow> name
      | Some i \<Rightarrow> if 0 < i \<and> i < length name - 1 then take i name else name)"

fun join_bs :: "string list \<Rightarrow> string" where
  "join_bs [] = []"
| "join_bs [x] = x"
| "join_bs (x # y # ys) = x @ bs # join_bs (y # ys)"

definition str_path :: "path \<Rightarrow> string" where
  "str_path p = (case p of [] \<Rightarrow> ''.'' | anchor # rest \<Rightarrow> anchor @ join_bs rest)"

text \<open>\<open>get_application_name\<close>: an IndexError of \<open>parts[1]\<close> or \<open>parts[2]\<close> falls through to
  \<open>file_path.stem\<close>.\<close>

definition get_application_name :: "path \<Rightarrow> string" where
  "get_application_name file_path =
     (case index file_path 1 of
        None \<Rightarrow> path_stem file_path
      | Some p1 \<Rightarrow>
          if contains (lower p1) ''program files'' then
            (case index file_path 2 of
               None \<Rightarrow> path_stem file_path
             | Some p2 \<Rightarrow> p2)
          else if contains (lower p1) ''windowsapps'' then
            (case index file_path 2 of
               None \<Rightarrow> path_stem file_path
             | Some p2 \<Rightarrow> first_part CHR ''_'' p2)
          else path_stem file_path)"

definition static_record :: "path \<Rightarrow> pyrecord" where
  "static_record file_path =
     [(''app'', Str (get_application_name file_path)), (''file'', Str (str_path file_path)),
      (''framework'', Str ''Java Runtime''), (''detection_method'', Str ''static_analysis''),
      (''confidence'', Str ''high'')]"

definition analyze_file_dependencies :: "scanner \<Rightarrow> path \<Rightarrow> scanner" where
  "analyze_file_dependencies self file_path =
     self\<lparr>dependencies := dict_append ''java'' (static_record file_path) (dependencies self)\<rparr>"

text \<open>
  \<open>scan_directory_for_dependencies\<close> and its \<open>for\<close> loop over \<open>directory.iterdir()\<close>. The
  handler \<open>except (PermissionError, OSError): pass\<close> around the loop ends the loop at the
  first item whose \<open>is_file()\<close> or \<open>is_dir()\<close> raises, and keeps what was recorded before.
\<close>

function scan_directory_for_dependencies :: "host \<Rightarrow> path \<Rightarrow> int \<Rightarrow> scanner \<Rightarrow> scanner"
  and scan_items :: "host \<Rightarrow> path \<Rightarrow> string list \<Rightarrow> int \<Rightarrow> scanner \<Rightarrow> scanner" where
  "scan_directory_for_dependencies h directory max_depth self =
     (if max_depth \<le> 0 then self
      else (case iterdir h directory of
              Inl e \<Rightarrow> self
            | Inr names \<Rightarrow> scan_items h directory names max_depth self))"
| "scan_items h directory [] max_depth self = self"
| "scan_items h directory (name # names) max_depth self =
     (let item = directory @ [name] in
      case is_file h item of
        Inl e \<Rightarrow> self
      | Inr f \<Rightarrow>
          if f \<and> lower (path_suffix item) = ''.jar''
          then scan_items h directory names max_depth (analyze_file_dependencies self item)
          else (case is_dir h item of
                  Inl e \<Rightarrow> self
                | Inr d \<Rightarrow>
                    if d \<and> \<not> prefix ''.'' name
                    then scan_items h directory names max_depth
                           (scan_directory_for_dependencies h item (max_depth - 1) self)
                    else scan_items h directory names max_depth self))"
  by pat_completeness auto
termination
  by (relation "measures
        [\<lambda>x. case x of
                Inl (h, directory, max_depth, self) \<Rightarrow>
                  (if max_depth \<le> 0 then 0 else 2 * nat max_depth + 2)
              | Inr (h, directory, names, max_depth, self) \<Rightarrow> 2 * nat max_depth + 1,
         \<lambda>x. case x of
                Inl (h, directory, max_depth, self) \<Rightarrow> 0
              | Inr (h, directory, names, max_depth, self) \<Rightarrow> length names]")
    auto

text \<open>The equation of \<open>scan_directory_for_dependencies\<close> is unfolded by hand, one level at a time.\<close>

declare scan_directory_for_dependencies.simps [simp del]

definition program_dirs :: "path list" where
  "program_dirs = [[''C:'' @ [bs], ''Program Files''], [''C:'' @ [bs], ''Program Files (x86)''],
     [''C:'' @ [bs], ''ProgramData'']]"

definition scan_installed_applications :: "host \<Rightarrow> scanner \<Rightarrow> scanner" where
  "scan_installed_applications h self =
     fold (\<lambda>prog_dir self.
             if path_exists h prog_dir then scan_directory_for_dependencies h prog_dir 3 self
             else self)
       program_dirs self"

section \<open>The scan of the running processes\<close>

text \<open>\<open>is_java_process\<close>: \<open>None.lower()\<close> raises AttributeError, which the bare \<open>except\<close>
  turns into \<open>False\<close>.\<close>

definition is_java_process :: "process \<Rightarrow> bool" where
  "is_java_process proc =
     (case proc_name proc of
        None \<Rightarrow> False
      | Some name \<Rightarrow> lower name \<in> set [''java.exe'', ''javaw.exe''])"

text \<open>\<^verbatim>\<open>version "([^"]+)"\<close>, anchored. The double quote is \<open>CHR 0x22\<close>.\<close>

definition java_version_match :: "string \<Rightarrow> string option" where
  "java_version_match s =
     (case lit (''version '' @ [CHR 0x22]) s of
        None \<Rightarrow> None
      | Some r \<Rightarrow>
          (let v = takeWhile (\<lambda>c. c \<noteq> CHR 0x22) r in
           if v \<noteq> [] \<and> prefix [CHR 0x22] (dropWhile (\<lambda>c. c \<noteq> CHR 0x22) r)
           then Some v else None))"

fun of_opt :: "string option \<Rightarrow> pyval" where
  "of_opt None = NoneVal"
| "of_opt (Some s) = Str s"

text \<open>
  \<open>detect_java_version_from_process\<close>: every exception of the \<open>try\<close> is caught and gives
  the fallback \<open>("Unknown", proc.info.get('exe', 'Unknown'))\<close>; \<open>proc.info\<close> always has the
  key \<open>'exe'\<close>.
\<close>

definition detect_java_version_from_process :: "process \<Rightarrow> string \<times> pyval" where
  "detect_java_version_from_process proc =
     (let fallback = (''Unknown'', of_opt (proc_exe proc)) in
      case proc_exe proc of
        None \<Rightarrow> fallback
      | Some exe_path \<Rightarrow>
          if exe_path = [] then fallback
          else (case proc_run_version proc of
                  Inl e \<Rightarrow> if catches_Exception e then fallback else fallback
                | Inr (returncode, stdout) \<Rightarrow>
                    if returncode = 0 then
                      (case re_search java_version_match stdout of
                         Some v \<Rightarrow> (v, Str exe_path)
                       | None \<Rightarrow> fallback)
                    else fallback))"

definition dotnet_runtime_record :: "process \<Rightarrow> string \<Rightarrow> string \<Rightarrow> string \<Rightarrow> pyrecord" where
  "dotnet_runtime_record proc exe_path dotnet_version dotnet_path =
     [(''app'', of_opt (proc_name proc)), (''pid'', IntVal (proc_pid proc)), (''file'', Str exe_path),
      (''framework'', Str (''.NET Core Runtime '' @ dotnet_version)),
      (''dependency_path'', Str dotnet_path), (''detection_method'', Str ''runtime_analysis''),
      (''confidence'', Str ''high''), (''status'', Str ''running'')]"

definition java_runtime_record :: "process \<Rightarrow> string \<Rightarrow> string \<Rightarrow> pyval \<Rightarrow> pyrecord" where
  "java_runtime_record proc exe_path java_version java_path =
     [(''app'', of_opt (proc_name proc)), (''pid'', IntVal (proc_pid proc)), (''file'', Str exe_path),
      (''framework'', Str (''Java Runtime '' @ java_version)),
      (''dependency_path'', java_path), (''detection_method'', Str ''runtime_analysis''),
      (''confidence'', Str ''high''), (''status'', Str ''running'')]"

text \<open>
  \<open>analyze_running_process\<close>: the whole body stands in \<open>try ... except Exception: pass\<close>,
  so an exception of \<open>get_dotnet_core_version_from_process\<close> ends it with nothing
  appended.
\<close>

definition analyze_running_process :: "scanner \<Rightarrow> process \<Rightarrow> scanner" where
  "analyze_running_process self proc =
     (case proc_exe proc of
        None \<Rightarrow> self
      | Some exe_path \<Rightarrow>
          if exe_path = [] then self
          else (case get_dotnet_core_version_from_process proc of
                  Inl e \<Rightarrow> self
                | Inr found \<Rightarrow>
                    (let self1 =
                           (case found of
                              None \<Rightarrow> self
                            | Some (dotnet_version, dotnet_path) \<Rightarrow>
                                if dotnet_version \<noteq> [] then
                                  self\<lparr>dependencies :=
                                    dict_append ''dotnet_runtime''
                                      (dotnet_runtime_record proc exe_path dotnet_version
                                         dotnet_path)
                                      (dependencies self)\<rparr>
                                else self)
                     in if is_java_process proc then
                          (case detect_java_version_from_process proc of
                             (java_version, java_path) \<Rightarrow>
                               self1\<lparr>dependencies :=
                                 dict_append ''java_runtime''
                                   (java_runtime_record proc exe_path java_version java_path)
                                   (dependencies self1)\<rparr>)
                        else self1)))"

definition truthy :: "string option \<Rightarrow> bool" where
  "truthy x = (case x of None \<Rightarrow> False | Some s \<Rightarrow> s \<noteq> [])"

definition scan_running_processes :: "host \<Rightarrow> scanner \<Rightarrow> scanner" where
  "scan_running_processes h self =
     fold (\<lambda>proc self. if truthy (proc_exe proc) then analyze_running_process self proc else self)
       (process_iter h) self"

section \<open>The report and the orchestrator\<close>

record scan_summary =
  frameworks_found :: nat
  dependencies_found :: nat
  scan_timestamp :: string

record report =
  summary :: scan_summary
  report_installed_frameworks :: "pyrecord dict"
  report_dependencies :: "pyrecord list dict"

definition generate_report :: "host \<Rightarrow> scanner \<Rightarrow> report" where
  "generate_report h self =
     \<lparr>summary =
        \<lparr>frameworks_found = length (installed_frameworks self),
         dependencies_found = sum_list (map (\<lambda>(category, deps). length deps) (dependencies self)),
         scan_timestamp = boot_time h\<rparr>,
      report_installed_frameworks = installed_frameworks self,
      report_dependencies = dependencies self\<rparr>"

text \<open>
  \<open>scan_all\<close> calls the three phases one after the other and has no handler: an
  exception that leaves \<open>detect_frameworks\<close> leaves \<open>scan_all\<close>. The two later phases
  catch every exception of their lookups.
\<close>

definition scan_all :: "host \<Rightarrow> scanner \<Rightarrow> exc + report" where
  "scan_all h self =
     (case detect_frameworks h self of
        Inl e \<Rightarrow> Inl e
      | Inr self1 \<Rightarrow>
          (let self2 = scan_installed_applications h self1;
               self3 = scan_running_processes h self2
           in Inr (generate_report h self3)))"

section \<open>Auxiliary notions for the statements\<close>

text \<open>Every record of a \<open>dependencies\<close> dictionary, category after category.\<close>

definition all_records :: "'r list dict \<Rightarrow> 'r list" where
  "all_records d = concat (map snd d)"

text \<open>
  The text the pattern of \<open>get_dotnet_core_version_from_process\<close> describes, for the
  runtime kind \<open>k\<close> (\<open>netcore\<close> or \<open>aspnetcore\<close>) and the version directory \<open>v\<close>:
  \<^verbatim>\<open>\dotnet\shared\microsoft.<k>.app\<v>\coreclr.dll\<close>.
\<close>

definition core_pattern :: "string \<Rightarrow> string \<Rightarrow> string" where
  "core_pattern k v =
     bs # ''dotnet'' @ bs # ''shared'' @ bs # ''microsoft.'' @ k @ ''.app'' @ bs # v
       @ bs # ''coreclr.dll''"

definition matches_core_pattern :: "string \<Rightarrow> string \<Rightarrow> string \<Rightarrow> bool" where
  "matches_core_pattern s k v \<longleftrightarrow>
     (k = ''netcore'' \<or> k = ''aspnetcore'') \<and> v \<noteq> [] \<and> bs \<notin> set v
     \<and> (\<exists>pre post. s = pre @ core_pattern k v @ post)"

text \<open>A module path that the loop of \<open>scan_modules\<close> passes over: it neither matches the
  pattern nor is taken for a self-contained runtime.\<close>

definition neither :: "string \<Rightarrow> bool" where
  "neither path \<longleftrightarrow>
     (\<forall>k v. \<not> matches_core_pattern (lower path) k v) \<and> \<not> is_self_contained (lower path)"

text \<open>
  A framework record carries the key \<open>'eol_status'\<close> with one of the three values. A
  framework map is well formed when its keys are distinct and every record carries it.
\<close>

definition has_eol_status :: "pyrecord \<Rightarrow> bool" where
  "has_eol_status r \<longleftrightarrow>
     (\<exists>st. map_of r ''eol_status'' = Some (Str st)
        \<and> st \<in> {''EOL'', ''Supported'', ''Unknown''})"

definition wf_frameworks :: "pyrecord dict \<Rightarrow> bool" where
  "wf_frameworks d \<longleftrightarrow> distinct (map fst d) \<and> (\<forall>(k, r) \<in> set d. has_eol_status r)"

text \<open>
  The annotations a dependency record carries: \<open>'confidence': 'high'\<close> always, and either
  \<open>'detection_method': 'runtime_analysis'\<close> with \<open>'status': 'running'\<close>, or
  \<open>'detection_method': 'static_analysis'\<close> with no key \<open>'status'\<close>.
\<close>

definition annotated :: "pyrecord \<Rightarrow> bool" where
  "annotated r \<longleftrightarrow>
     map_of r ''confidence'' = Some (Str ''high'')
     \<and> (map_of r ''detection_method'' = Some (Str ''runtime_analysis'')
          \<and> map_of r ''status'' = Some (Str ''running'')
        \<or> map_of r ''detection_method'' = Some (Str ''static_analysis'')
          \<and> map_of r ''status'' = None)"

definition all_annotated :: "scanner \<Rightarrow> bool" where
  "all_annotated self = list_all annotated (all_records (dependencies self))"

section \<open>The walk of the static scan, specified\<close>

text \<open>
  The files and directories of the walk. A \<open>jar_file\<close> is an item that \<open>is_file()\<close> reports as
  a file and whose suffix is \<open>.jar\<close> in any case. The walk \<open>descends\<close> into an item for which
  \<open>is_file()\<close> answers, that is not taken as a jar file, that \<open>is_dir()\<close> reports as a
  directory and whose name does not start with a dot. The loop over a listing \<open>passes\<close> an
  item, and goes on to the next one, when no call made for the item raises: the item is a
  jar file, or \<open>is_file()\<close> and then \<open>is_dir()\<close> both answer.
\<close>

definition jar_file :: "host \<Rightarrow> path \<Rightarrow> bool" where
  "jar_file h item \<longleftrightarrow> is_file h item = Inr True \<and> lower (path_suffix item) = ''.jar''"

definition descends :: "host \<Rightarrow> path \<Rightarrow> string \<Rightarrow> bool" where
  "descends h directory name \<longleftrightarrow>
     (\<exists>b. is_file h (directory @ [name]) = Inr b) \<and> \<not> jar_file h (directory @ [name])
     \<and> is_dir h (directory @ [name]) = Inr True \<and> \<not> prefix ''.'' name"

definition passes :: "host \<Rightarrow> path \<Rightarrow> bool" where
  "passes h item \<longleftrightarrow>
     jar_file h item \<or> (\<exists>b. is_file h item = Inr b) \<and> (\<exists>d. is_dir h item = Inr d)"


text \<open>
  \<open>reached h directory n f\<close>: the jar file \<open>f\<close> lies at most \<open>n\<close> levels below \<open>directory\<close>,
  the walk descends into every directory between the two, and in each of these
  directories, \<open>directory\<close> included, the loop passes every entry listed before the one that
  leads to \<open>f\<close>.
\<close>

inductive reached :: "host \<Rightarrow> path \<Rightarrow> nat \<Rightarrow> path \<Rightarrow> bool" for h :: host where
  here: "iterdir h directory = Inr (before @ name # after)
      \<Longrightarrow> \<forall>x \<in> set before. passes h (directory @ [x])
      \<Longrightarrow> jar_file h (directory @ [name])
      \<Longrightarrow> reached h directory (Suc n) (directory @ [name])"
| deeper: "iterdir h directory = Inr (before @ name # after)
      \<Longrightarrow> \<forall>x \<in> set before. passes h (directory @ [x])
      \<Longrightarrow> descends h directory name
      \<Longrightarrow> reached h (directory @ [name]) n f
      \<Longrightarrow> reached h directory (Suc n) f"

text \<open>What the loop over the listing \<open>names\<close> reaches with \<open>m\<close> levels left below its entries.\<close>

definition through :: "host \<Rightarrow> path \<Rightarrow> string list \<Rightarrow> nat \<Rightarrow> path \<Rightarrow> bool" where
  "through h directory names m f \<longleftrightarrow>
     (\<exists>before name after. names = before @ name # after
        \<and> (\<forall>x \<in> set before. passes h (directory @ [x]))
        \<and> (jar_file h (directory @ [name]) \<and> f = directory @ [name]
           \<or> descends h directory name \<and> reached h (directory @ [name]) m f))"


text \<open>The records under the category \<open>'java'\<close>.\<close>

definition java_records :: "scanner \<Rightarrow> pyrecord set" where
  "java_records self =
     (case map_of (dependencies self) ''java'' of None \<Rightarrow> {} | Some rs \<Rightarrow> set rs)"



section \<open>Sample hosts\<close>

text \<open>
  \<open>host0\<close>: one Java runtime in the registry, a \<open>dotnet\<close> CLI that lists one runtime under
  the same key \<open>Java 1.8\<close>, no SQL engine, no program directory, no process.
\<close>

definition host0 :: host where
  "host0 = \<lparr>java_registry = Inr [Inr (''1.8'', Inr (Str ''C:/Java/jre8''))],
     dotnet_cli = Inr (0, ''Java 1.8 [C:/dotnet]''),
     mssql_registry = Inl FileNotFoundError,
     mysql_services = Inr [],
     postgresql_services = Inr [],
     grandparent = (\<lambda>p. p),
     path_exists = (\<lambda>p. False),
     iterdir = (\<lambda>p. Inl OS_FileNotFound),
     is_file = (\<lambda>p. Inr False),
     is_dir = (\<lambda>p. Inr False),
     process_iter = [],
     boot_time = ''1700000000.0''\<rparr>"

definition scanner0 :: scanner where
  "scanner0 = \<lparr>dependencies =
       [(''java'', [static_record [''C:'' @ [bs], ''ProgramData'', ''a.jar''],
                    static_record [''C:'' @ [bs], ''ProgramData'', ''b.jar'']]),
        (''java_runtime'', [])],
     running_processes = [],
     installed_frameworks = [(''Java 1.8'', [(''version'', Str ''1.8'')]),
                             (''MySQL Server 8.0.1'', [(''version'', Str ''8.0.1'')])]\<rparr>"

text \<open>
  \<open>host1\<close>: no framework installed (every detector's first lookup reports a missing key
  or a missing \<open>dotnet\<close> command); \<open>C:\ProgramData\App\<close> holds \<open>lib.JAR\<close>, the directory
  \<open>.cache\<close> and \<open>readme.txt\<close>; one process \<open>java.exe\<close> has loaded a \<open>coreclr.dll\<close> of
  the shared .NET runtime 8.0.1.
\<close>

definition program_data :: path where
  "program_data = [''C:'' @ [bs], ''ProgramData'']"

definition coreclr_801 :: string where
  "coreclr_801 = ''C:'' @ bs # ''Program Files'' @ bs # ''dotnet'' @ bs # ''shared'' @ bs #
     ''Microsoft.NETCore.App'' @ bs # ''8.0.1'' @ bs # ''coreclr.dll''"

definition java_exe :: string where
  "java_exe = ''C:'' @ bs # ''Java'' @ bs # ''bin'' @ bs # ''java.exe''"

definition proc1 :: process where
  "proc1 = \<lparr>proc_pid = 4242, proc_name = Some ''java.exe'', proc_exe = Some java_exe,
     proc_memory_maps = Inr [''C:'' @ bs # ''Windows'' @ bs # ''ntdll.dll'', coreclr_801],
     proc_run_version = Inl ValueError\<rparr>"

definition host1 :: host where
  "host1 = \<lparr>java_registry = Inl FileNotFoundError,
     dotnet_cli = Inl FileNotFoundError,
     mssql_registry = Inl FileNotFoundError,
     mysql_services = Inr [],
     postgresql_services = Inr [],
     grandparent = (\<lambda>p. p),
     path_exists = (\<lambda>p. p = program_data),
     iterdir = (\<lambda>p. if p = program_data then Inr [''App'']
                     else if p = program_data @ [''App'']
                     then Inr [''lib.JAR'', ''.cache'', ''readme.txt'']
                     else Inl OS_NotADirectory),
     is_file = (\<lambda>p. Inr (p = program_data @ [''App'', ''lib.JAR'']
                           \<or> p = program_data @ [''App'', ''readme.txt''])),
     is_dir = (\<lambda>p. Inr (p = program_data @ [''App'']
                          \<or> p = program_data @ [''App'', ''.cache''])),
     process_iter = [proc1],
     boot_time = ''1700000000.0''\<rparr>"

definition report1 :: report where
  "report1 =
     \<lparr>summary = \<lparr>frameworks_found = 0, dependencies_found = 3,
                  scan_timestamp = ''1700000000.0''\<rparr>,
      report_installed_frameworks = [],
      report_dependencies =
        [(''java'', [static_record (program_data @ [''App'', ''lib.JAR''])]),
         (''dotnet_runtime'',
            [dotnet_runtime_record proc1 java_exe ''8.0.1 (netcore)'' coreclr_801]),
         (''java_runtime'',
            [java_runtime_record proc1 java_exe ''Unknown'' (Str java_exe)])]\<rparr>"

text \<open>
  \<open>proc2\<close>: a self-contained application; its own directory holds \<open>coreclr.dll\<close>.
\<close>

definition ntdll :: string where
  "ntdll = ''C:'' @ bs # ''Windows'' @ bs # ''ntdll.dll''"

definition app_coreclr :: string where
  "app_coreclr = ''C:'' @ bs # ''MyApp'' @ bs # ''coreclr.dll''"

definition proc2 :: process where
  "proc2 = \<lparr>proc_pid = 77, proc_name = Some ''MyApp.exe'',
     proc_exe = Some (''C:'' @ bs # ''MyApp'' @ bs # ''MyApp.exe''),
     proc_memory_maps = Inr [ntdll, app_coreclr],
     proc_run_version = Inl ValueError\<rparr>"

text \<open>
  The two records \<open>host0\<close> yields under the key \<open>Java 1.8\<close>: the registry's, and the one of
  the runtime the \<open>dotnet\<close> CLI lists under the name \<open>Java\<close>.
\<close>

definition java_1_8 :: pyrecord where
  "java_1_8 = [(''version'', Str ''1.8''), (''path'', Str ''C:/Java/jre8''), (''type'', Str ''java''),
     (''eol_status'', Str ''EOL'')]"

definition dotnet_java_1_8 :: pyrecord where
  "dotnet_java_1_8 = [(''version'', Str ''1.8''), (''runtime'', Str ''Java''),
     (''path'', Str ''C:/dotnet''), (''type'', Str ''dotnet_core''),
     (''eol_status'', Str ''Supported'')]"

text \<open>\<open>host2\<close>: \<open>host0\<close> with one SQL Server instance, one MySQL and one PostgreSQL service.\<close>

definition host2 :: host where
  "host2 = host0\<lparr>
     mssql_registry := Inr [Inr (''MSSQLSERVER'', Inr (Str ''12.0.2000.8''), Inr (Str ''C:/SQL''))],
     mysql_services := Inr [\<lparr>svc_name = ''MySQL80'', svc_display_name = ''MySQL80'',
        svc_binpath = Inr ''C:/MySQL/MySQL Server 8.0.33/bin/mysqld.exe''\<rparr>],
     postgresql_services := Inr [\<lparr>svc_name = ''postgresql-13'',
        svc_display_name = ''PostgreSQL Server 13'',
        svc_binpath = Inr ''C:/PostgreSQL/13/bin/pg_ctl.exe''\<rparr>],
     grandparent := (\<lambda>p. if p = ''C:/MySQL/MySQL Server 8.0.33/bin/mysqld.exe''
                           then ''C:'' @ bs # ''MySQL'' @ bs # ''MySQL Server 8.0.33''
                           else if p = ''C:/PostgreSQL/13/bin/pg_ctl.exe''
                           then ''C:'' @ bs # ''PostgreSQL'' @ bs # ''13''
                           else ''.'')\<rparr>"

text \<open>\<open>host_timeout\<close>: \<open>host0\<close>, but \<open>dotnet --list-runtimes\<close> does not answer within the ten
  seconds \<open>subprocess.run\<close> gives it.\<close>

definition host_timeout :: host where
  "host_timeout = host0\<lparr>dotnet_cli := Inl TimeoutExpired\<rparr>"



section \<open>Facts about the string functions\<close>

lemma split_chr_not_Nil: "split_chr c s \<noteq> []"
  by (induction s) (auto split: list.splits)

lemma split_chr_no_sep: "c \<notin> set s \<Longrightarrow> split_chr c s = [s]"
  by (induction s) auto

lemma split_chr_sep_length: "c \<in> set s \<Longrightarrow> 2 \<le> length (split_chr c s)"
proof (induction s)
  case Nil
  then show ?case by simp
next
  case (Cons x xs)
  show ?case
  proof (cases "x = c")
    case True
    have "split_chr c xs \<noteq> []" by (rule split_chr_not_Nil)
    then have "1 \<le> length (split_chr c xs)" by (cases "split_chr c xs") auto
    with True show ?thesis by simp
  next
    case False
    with Cons.prems have "c \<in> set xs" by auto
    then have "2 \<le> length (split_chr c xs)" by (rule Cons.IH)
    with False show ?thesis by (cases "split_chr c xs") auto
  qed
qed

lemma index_1_split_chr:
  "index (split_chr c s) 1 = None \<longleftrightarrow> c \<notin> set s"
proof
  assume "index (split_chr c s) 1 = None"
  then have "length (split_chr c s) \<le> 1"
    by (simp add: index_def split: if_splits)
  then show "c \<notin> set s"
    using split_chr_sep_length [of c s] by auto
next
  assume "c \<notin> set s"
  then show "index (split_chr c s) 1 = None"
    by (simp add: split_chr_no_sep index_def)
qed

lemma split_chr_index1:
  "index (split_chr c s) 1 = Some x \<longleftrightarrow> (\<exists>a rest. split_chr c s = a # x # rest)"
  by (cases "split_chr c s"; cases "tl (split_chr c s)") (auto simp: index_def)

lemma prefix_eol_versions:
  "list_ex (\<lambda>p. prefix p v) eol_versions \<longleftrightarrow>
     (\<exists>p \<in> set [''1.0'', ''1.1'', ''2.0'', ''2.1'', ''2.2'', ''3.0'', ''3.1'', ''5.0'',
        ''6.07.0'']. prefix p v)"
  by (simp add: eol_versions_def list_ex_iff)

lemma prefix_6_or_7:
  assumes "prefix ''6.0'' v \<or> prefix ''7.0'' v" and "\<not> prefix ''6.07.0'' v"
  shows "\<not> list_ex (\<lambda>p. prefix p v) eol_versions"
proof -
  from assms(1) obtain c r where v: "v = c # r" and c: "c = CHR ''6'' \<or> c = CHR ''7''"
    by (auto elim!: prefixE)
  show ?thesis
    using assms(2) c unfolding v eol_versions_def by auto
qed

section \<open>Facts about dictionaries\<close>

lemma map_of_dict_set: "map_of (dict_set k v d) = (map_of d)(k \<mapsto> v)"
  by (simp add: dict_set_def update_conv')

lemma distinct_dict_set: "distinct (map fst d) \<Longrightarrow> distinct (map fst (dict_set k v d))"
  by (simp add: dict_set_def distinct_update)

lemma map_of_fold_dict_set:
  "map_of (fold (\<lambda>(k, v). dict_set k v) other d) = map_of d ++ map_of (rev other)"
proof (induction other arbitrary: d)
  case Nil
  show ?case by simp
next
  case (Cons kv other)
  obtain k v where kv: "kv = (k, v)" by (cases kv)
  have "map_of (fold (\<lambda>(k, v). dict_set k v) (kv # other) d)
      = map_of (dict_set k v d) ++ map_of (rev other)"
    by (simp add: kv Cons.IH)
  also have "\<dots> = map_of d ++ (map_of (rev other @ [(k, v)]))"
    by (simp add: map_of_dict_set fun_eq_iff map_add_def split: option.splits)
  finally show ?case by (simp add: kv)
qed

lemma map_of_rev_distinct:
  assumes "distinct (map fst xs)"
  shows "map_of (rev xs) = map_of xs"
proof (rule ext)
  fix k
  have d: "distinct (map fst (rev xs))"
    using assms by (simp add: rev_map [symmetric])
  show "map_of (rev xs) k = map_of xs k"
  proof (cases "map_of xs k")
    case None
    then have "k \<notin> fst ` set (rev xs)" by (simp add: map_of_eq_None_iff)
    then have "map_of (rev xs) k = None" using map_of_eq_None_iff [of "rev xs" k] by blast
    with None show ?thesis by simp
  next
    case (Some v)
    then have "(k, v) \<in> set (rev xs)" by (auto dest: map_of_SomeD)
    with d have "map_of (rev xs) k = Some v" using map_of_eq_Some_iff [of "rev xs" k v] by blast
    with Some show ?thesis by simp
  qed
qed

lemma map_of_dict_update:
  "distinct (map fst other) \<Longrightarrow> map_of (dict_update d other) = map_of d ++ map_of other"
  by (simp add: dict_update_def map_of_fold_dict_set map_of_rev_distinct)

lemma distinct_fold_dict_set:
  "distinct (map fst d) \<Longrightarrow> distinct (map fst (fold (\<lambda>(k, v). dict_set k v) other d))"
  by (induction other arbitrary: d) (auto simp: distinct_dict_set)

lemma distinct_dict_update:
  "distinct (map fst d) \<Longrightarrow> distinct (map fst (dict_update d other))"
  by (simp add: dict_update_def distinct_fold_dict_set)

lemma all_records_update:
  "map_of d k = Some rs \<Longrightarrow>
     set (all_records (AList.update k (rs @ [r]) d)) = insert r (set (all_records d))"
  by (induction d) (auto simp: all_records_def split: if_splits)

lemma all_records_dict_append:
  "set (all_records (dict_append k r d)) = insert r (set (all_records d))"
proof (cases "map_of d k")
  case None
  then show ?thesis by (simp add: dict_append_def all_records_def)
next
  case (Some rs)
  then show ?thesis by (simp add: dict_append_def dict_set_def all_records_update)
qed

lemma length_all_records:
  "length (all_records d) = sum_list (map (\<lambda>(category, deps). length deps) d)"
  by (induction d) (auto simp: all_records_def)

section \<open>The pattern of the shared .NET runtime\<close>

lemma lit_iff: "lit p s = Some r \<longleftrightarrow> s = p @ r"
proof (induction p arbitrary: s)
  case Nil
  show ?case by auto
next
  case (Cons a p)
  then show ?case by (cases s) auto
qed

lemma lit_append: "lit p (p @ r) = Some r"
  by (simp add: lit_iff)

lemma re_search_sound: "re_search m s = Some r \<Longrightarrow> \<exists>pre t. s = pre @ t \<and> m t = Some r"
proof (induction s)
  case Nil
  then show ?case by simp
next
  case (Cons c cs)
  show ?case
  proof (cases "m (c # cs)")
    case (Some r')
    with Cons.prems have "m (c # cs) = Some r" by simp
    then show ?thesis by (metis append_Nil)
  next
    case None
    with Cons.prems have "re_search m cs = Some r" by simp
    then obtain pre t where "cs = pre @ t" "m t = Some r"
      using Cons.IH by blast
    then have "c # cs = (c # pre) @ t" by simp
    with \<open>m t = Some r\<close> show ?thesis by blast
  qed
qed

lemma re_search_complete: "m t \<noteq> None \<Longrightarrow> re_search m (pre @ t) \<noteq> None"
proof (induction pre)
  case Nil
  then show ?case by (cases t) auto
next
  case (Cons c pre)
  then show ?case by (cases "m (c # pre @ t)") auto
qed

lemma takeWhile_sep: "c \<notin> set v \<Longrightarrow> takeWhile (\<lambda>x. x \<noteq> c) (v @ c # rest) = v"
  by (induction v) auto

lemma dropWhile_sep: "c \<notin> set v \<Longrightarrow> dropWhile (\<lambda>x. x \<noteq> c) (v @ c # rest) = c # rest"
  by (induction v) auto

lemma core_tail_sound:
  assumes "core_tail s = Some v"
  shows "v \<noteq> [] \<and> bs \<notin> set v \<and> (\<exists>post. s = ''.app'' @ bs # v @ bs # ''coreclr.dll'' @ post)"
proof -
  from assms obtain r where l: "lit (''.app'' @ [bs]) s = Some r"
    by (cases "lit (''.app'' @ [bs]) s") (simp_all add: core_tail_def)
  then have r: "s = (''.app'' @ [bs]) @ r" by (simp only: lit_iff)
  from assms have v: "v = takeWhile (\<lambda>c. c \<noteq> bs) r" and ne: "v \<noteq> []"
    and pre: "prefix (bs # ''coreclr.dll'') (dropWhile (\<lambda>c. c \<noteq> bs) r)"
    unfolding core_tail_def l by (auto simp: Let_def split: if_splits)
  from pre obtain post where d: "dropWhile (\<lambda>c. c \<noteq> bs) r = (bs # ''coreclr.dll'') @ post"
    by (auto elim: prefixE)
  have "r = v @ dropWhile (\<lambda>c. c \<noteq> bs) r"
    by (simp add: v)
  with d have "r = v @ bs # ''coreclr.dll'' @ post" by simp
  moreover have "bs \<notin> set v"
    unfolding v by (auto dest: set_takeWhileD)
  ultimately show ?thesis using ne r by auto
qed

lemma core_tail_complete:
  assumes "v \<noteq> []" and "bs \<notin> set v"
  shows "core_tail ((''.app'' @ [bs]) @ v @ bs # ''coreclr.dll'' @ post) = Some v"
proof -
  have l: "lit (''.app'' @ [bs]) ((''.app'' @ [bs]) @ v @ bs # ''coreclr.dll'' @ post)
      = Some (v @ bs # ''coreclr.dll'' @ post)"
    by (rule lit_append)
  have t: "takeWhile (\<lambda>c. c \<noteq> bs) (v @ bs # ''coreclr.dll'' @ post) = v"
    using assms(2) by (rule takeWhile_sep)
  have d: "dropWhile (\<lambda>c. c \<noteq> bs) (v @ bs # ''coreclr.dll'' @ post) = bs # ''coreclr.dll'' @ post"
    using assms(2) by (rule dropWhile_sep)
  show ?thesis
    unfolding core_tail_def l option.case Let_def t d using assms(1) by simp
qed


lemma core_match_sound:
  assumes "core_match s = Some (g1, v)"
  obtains k post where "k = ''netcore'' \<or> k = ''aspnetcore''"
    and "g1 = ''microsoft.'' @ k @ ''.app''" and "v \<noteq> []" and "bs \<notin> set v"
    and "s = core_pattern k v @ post"
proof -
  from assms obtain r where l: "lit core_prefix s = Some r"
    by (cases "lit core_prefix s") (simp_all add: core_match_def)
  then have r: "s = core_prefix @ r" by (simp only: lit_iff)
  show ?thesis
  proof (cases "Option.bind (lit ''netcore'' r) core_tail")
    case (Some v')
    with assms have g: "g1 = ''microsoft.netcore.app''" and vv: "v' = v"
      unfolding core_match_def l by simp_all
    from Some obtain r1 where r1: "r = ''netcore'' @ r1" and ct: "core_tail r1 = Some v'"
      by (auto simp: bind_eq_Some_conv lit_iff)
    from core_tail_sound [OF ct] vv obtain post where
      p: "v \<noteq> []" "bs \<notin> set v" "r1 = ''.app'' @ bs # v @ bs # ''coreclr.dll'' @ post"
      by auto
    have "s = core_pattern ''netcore'' v @ post"
      unfolding r r1 p(3) by (simp add: core_pattern_def core_prefix_def)
    moreover have "g1 = ''microsoft.'' @ ''netcore'' @ ''.app''"
      unfolding g by simp
    ultimately show ?thesis
      using p(1,2) by (intro that [of "''netcore''" post]) simp_all
  next
    case None
    with assms obtain v' where b: "Option.bind (lit ''aspnetcore'' r) core_tail = Some v'"
      and g: "g1 = ''microsoft.aspnetcore.app''" and vv: "v' = v"
      unfolding core_match_def l
      by (cases "Option.bind (lit ''aspnetcore'' r) core_tail") simp_all
    from b obtain r1 where r1: "r = ''aspnetcore'' @ r1" and ct: "core_tail r1 = Some v'"
      by (auto simp: bind_eq_Some_conv lit_iff)
    from core_tail_sound [OF ct] vv obtain post where
      p: "v \<noteq> []" "bs \<notin> set v" "r1 = ''.app'' @ bs # v @ bs # ''coreclr.dll'' @ post"
      by auto
    have "s = core_pattern ''aspnetcore'' v @ post"
      unfolding r r1 p(3) by (simp add: core_pattern_def core_prefix_def)
    moreover have "g1 = ''microsoft.'' @ ''aspnetcore'' @ ''.app''"
      unfolding g by simp
    ultimately show ?thesis
      using p(1,2) by (intro that [of "''aspnetcore''" post]) simp_all
  qed
qed

lemma core_match_complete:
  assumes "k = ''netcore'' \<or> k = ''aspnetcore''" and "v \<noteq> []" and "bs \<notin> set v"
  shows "core_match (core_pattern k v @ post) = Some (''microsoft.'' @ k @ ''.app'', v)"
proof -
  define rest where "rest = (''.app'' @ [bs]) @ v @ bs # ''coreclr.dll'' @ post"
  have ct: "core_tail rest = Some v"
    unfolding rest_def using assms(2,3) by (rule core_tail_complete)
  have "core_pattern k v @ post = core_prefix @ k @ rest"
    by (simp add: core_pattern_def core_prefix_def rest_def)
  then have l: "lit core_prefix (core_pattern k v @ post) = Some (k @ rest)"
    by (simp only: lit_iff)
  from assms(1) show ?thesis
  proof
    assume k: "k = ''netcore''"
    have "lit ''netcore'' (k @ rest) = Some rest"
      unfolding k by (rule lit_append)
    then have b: "Option.bind (lit ''netcore'' (k @ rest)) core_tail = Some v"
      by (simp add: ct)
    show ?thesis
      unfolding core_match_def l option.case b by (simp add: k)
  next
    assume k: "k = ''aspnetcore''"
    have "lit ''netcore'' (k @ rest) = None"
      unfolding k by simp
    then have n: "Option.bind (lit ''netcore'' (k @ rest)) core_tail = None"
      by simp
    have "lit ''aspnetcore'' (k @ rest) = Some rest"
      unfolding k by (rule lit_append)
    then have b: "Option.bind (lit ''aspnetcore'' (k @ rest)) core_tail = Some v"
      by (simp add: ct)
    show ?thesis
      unfolding core_match_def l option.case n b by (simp add: k)
  qed
qed

lemma re_search_core_match_Some:
  assumes "re_search core_match s = Some (g1, v)"
  shows "\<exists>k. g1 = ''microsoft.'' @ k @ ''.app'' \<and> matches_core_pattern s k v"
proof -
  from re_search_sound [OF assms] obtain pre t
    where s: "s = pre @ t" and m: "core_match t = Some (g1, v)"
    by (elim exE conjE)
  from m obtain k post where
    k: "k = ''netcore'' \<or> k = ''aspnetcore''" and g: "g1 = ''microsoft.'' @ k @ ''.app''"
    and v: "v \<noteq> []" "bs \<notin> set v" and t: "t = core_pattern k v @ post"
    by (rule core_match_sound)
  have "\<exists>pre post. s = pre @ core_pattern k v @ post"
    unfolding s t by (intro exI) (rule refl)
  with k v have "matches_core_pattern s k v"
    unfolding matches_core_pattern_def by (intro conjI)
  with g show ?thesis by (intro exI conjI)
qed

lemma re_search_core_match_iff:
  "re_search core_match s \<noteq> None \<longleftrightarrow> (\<exists>k v. matches_core_pattern s k v)"
proof
  assume "re_search core_match s \<noteq> None"
  then obtain x where "re_search core_match s = Some x"
    by (cases "re_search core_match s") simp_all
  then have "re_search core_match s = Some (fst x, snd x)" by simp
  from re_search_core_match_Some [OF this]
  show "\<exists>k v. matches_core_pattern s k v" by (elim exE conjE) (intro exI)
next
  assume "\<exists>k v. matches_core_pattern s k v"
  then obtain k v where "matches_core_pattern s k v" by (elim exE)
  then obtain pre post where k: "k = ''netcore'' \<or> k = ''aspnetcore''"
    and v: "v \<noteq> []" "bs \<notin> set v" and s: "s = pre @ core_pattern k v @ post"
    unfolding matches_core_pattern_def by (elim exE conjE)
  have "core_match (core_pattern k v @ post) \<noteq> None"
    unfolding core_match_complete [OF k v] by (rule option.distinct)
  then show "re_search core_match s \<noteq> None"
    unfolding s by (rule re_search_complete)
qed

section \<open>The loop over the loaded modules\<close>

lemma kind_of_group:
  "index_back (split_chr CHR ''.'' (''microsoft.'' @ ''netcore'' @ ''.app'')) 2 = Some ''netcore''"
  "index_back (split_chr CHR ''.'' (''microsoft.'' @ ''aspnetcore'' @ ''.app'')) 2
     = Some ''aspnetcore''"
  by code_simp+

lemma neither_no_match: "neither path \<Longrightarrow> re_search core_match (lower path) = None"
  using re_search_core_match_iff [of "lower path"] unfolding neither_def by blast

lemma scan_modules_skip:
  "list_all neither pre \<Longrightarrow> scan_modules proc (pre @ dlls) = scan_modules proc dlls"
proof (induction pre)
  case Nil
  show ?case by simp
next
  case (Cons p pre)
  then have "neither p" and "list_all neither pre" by simp_all
  then show ?case
    using Cons.IH by (simp add: neither_no_match) (simp add: neither_def)
qed

lemma scan_modules_neither: "list_all neither dlls \<Longrightarrow> scan_modules proc dlls = Inr None"
  using scan_modules_skip [of dlls proc "[]"] by simp

lemma kind_of_k:
  assumes "k' = ''netcore'' \<or> k' = ''aspnetcore''"
  shows "index_back (split_chr CHR ''.'' (''microsoft.'' @ k' @ ''.app'')) 2 = Some k'"
  using assms
proof
  assume "k' = ''netcore''"
  then show ?thesis by (simp only: kind_of_group)
next
  assume "k' = ''aspnetcore''"
  then show ?thesis by (simp only: kind_of_group)
qed

lemma scan_modules_Cons_core:
  assumes "re_search core_match (lower path) = Some (g1, v)"
    and "index_back (split_chr CHR ''.'' g1) 2 = Some k"
  shows "scan_modules proc (path # dlls) = Inr (Some (v @ '' ('' @ k @ '')'', path))"
  unfolding scan_modules.simps Let_def assms(1) option.case prod.case assms(2) by (rule refl)

lemma scan_modules_Cons_self:
  assumes "re_search core_match (lower path) = None" and "is_self_contained (lower path)"
  shows "scan_modules proc (path # dlls)
     = Inr (Some (''Self-Contained ('' @ format_opt (proc_name proc) @ '')'', path))"
  unfolding scan_modules.simps Let_def assms(1) option.case using assms(2) by (simp only: if_True)

lemma scan_modules_core:
  assumes "matches_core_pattern (lower path) k v"
  shows "\<exists>k' v'. matches_core_pattern (lower path) k' v'
     \<and> scan_modules proc (path # dlls) = Inr (Some (v' @ '' ('' @ k' @ '')'', path))"
proof -
  from assms have "\<exists>k v. matches_core_pattern (lower path) k v"
    by (intro exI)
  then have "re_search core_match (lower path) \<noteq> None"
    by (simp only: re_search_core_match_iff)
  then obtain g1 v' where x: "re_search core_match (lower path) = Some (g1, v')"
    by (cases "re_search core_match (lower path)") auto
  from re_search_core_match_Some [OF x] obtain k' where
    g: "g1 = ''microsoft.'' @ k' @ ''.app''" and m: "matches_core_pattern (lower path) k' v'"
    by (elim exE conjE)
  from m have "k' = ''netcore'' \<or> k' = ''aspnetcore''"
    unfolding matches_core_pattern_def by (elim conjE)
  then have i: "index_back (split_chr CHR ''.'' g1) 2 = Some k'"
    unfolding g by (rule kind_of_k)
  have "scan_modules proc (path # dlls) = Inr (Some (v' @ '' ('' @ k' @ '')'', path))"
    using x i by (rule scan_modules_Cons_core)
  with m show ?thesis by (intro exI conjI)
qed

lemma scan_modules_self_contained:
  assumes "\<forall>k v. \<not> matches_core_pattern (lower path) k v" and "is_self_contained (lower path)"
  shows "scan_modules proc (path # dlls)
     = Inr (Some (''Self-Contained ('' @ format_opt (proc_name proc) @ '')'', path))"
proof -
  from assms(1) have "\<not> (\<exists>k v. matches_core_pattern (lower path) k v)"
    by simp
  then have "re_search core_match (lower path) = None"
    by (simp only: re_search_core_match_iff [symmetric] not_not)
  then show ?thesis using assms(2) by (rule scan_modules_Cons_self)
qed

lemma no_core_match:
  assumes "re_search core_match s = None"
  shows "\<forall>k v. \<not> matches_core_pattern s k v"
proof (intro allI notI)
  fix k v
  assume "matches_core_pattern s k v"
  then have "\<exists>k v. matches_core_pattern s k v" by (intro exI)
  then have "re_search core_match s \<noteq> None"
    by (simp only: re_search_core_match_iff)
  with assms show False by (rule notE [rotated])
qed

lemma neither_ntdll: "neither ntdll"
proof -
  have "re_search core_match (lower ntdll) = None" by code_simp
  then have "\<forall>k v. \<not> matches_core_pattern (lower ntdll) k v"
    by (rule no_core_match)
  moreover have "\<not> is_self_contained (lower ntdll)" by code_simp
  ultimately show ?thesis unfolding neither_def by (rule conjI)
qed

lemma app_coreclr_facts:
  "\<forall>k v. \<not> matches_core_pattern (lower app_coreclr) k v"
  "is_self_contained (lower app_coreclr)"
proof -
  have "re_search core_match (lower app_coreclr) = None" by code_simp
  then show "\<forall>k v. \<not> matches_core_pattern (lower app_coreclr) k v"
    by (rule no_core_match)
  show "is_self_contained (lower app_coreclr)" by code_simp
qed

lemma coreclr_801_matches: "matches_core_pattern (lower coreclr_801) ''netcore'' ''8.0.1''"
proof -
  have "lower coreclr_801
      = (''c:'' @ bs # ''program files'') @ core_pattern ''netcore'' ''8.0.1'' @ []"
    by code_simp
  then have e: "\<exists>pre post. lower coreclr_801 = pre @ core_pattern ''netcore'' ''8.0.1'' @ post"
    by (intro exI)
  have b: "bs \<notin> set ''8.0.1''" by code_simp
  have v: "''8.0.1'' \<noteq> []" by (rule list.distinct)
  show ?thesis
    unfolding matches_core_pattern_def
    using e b v by (intro conjI disjI1 refl)
qed

section \<open>The framework maps of the detectors\<close>

lemma check_eol_range:
  "check_java_eol v \<in> {''EOL'', ''Supported'', ''Unknown''}"
  "check_dotnet_core_eol v \<in> {''EOL'', ''Supported'', ''Unknown''}"
  "check_mssql_eol v \<in> {''EOL'', ''Supported'', ''Unknown''}"
  "check_mysql_eol v \<in> {''EOL'', ''Supported'', ''Unknown''}"
  "check_postgresql_eol v \<in> {''EOL'', ''Supported'', ''Unknown''}"
  by (simp_all add: check_java_eol_def check_dotnet_core_eol_def check_mssql_eol_def
      check_mysql_eol_def check_postgresql_eol_def split: option.splits)

lemma set_dict_set: "set (dict_set k v d) \<subseteq> insert (k, v) (set d)"
  unfolding dict_set_def by (induction d) auto

lemma wf_frameworks_Nil: "wf_frameworks []"
  by (simp add: wf_frameworks_def)

lemma wf_frameworks_dict_set:
  assumes "wf_frameworks d" and "has_eol_status r"
  shows "wf_frameworks (dict_set k r d)"
  using assms set_dict_set [of k r d]
  unfolding wf_frameworks_def by (auto simp: distinct_dict_set)

lemma has_eol_status_literal:
  "st \<in> {''EOL'', ''Supported'', ''Unknown''} \<Longrightarrow>
     has_eol_status [(''version'', a), (''path'', b), (''type'', c), (''eol_status'', Str st)]"
  "st \<in> {''EOL'', ''Supported'', ''Unknown''} \<Longrightarrow>
     has_eol_status [(''version'', a), (''runtime'', a'), (''path'', b), (''type'', c),
       (''eol_status'', Str st)]"
  unfolding has_eol_status_def by simp_all

lemma wf_java_loop:
  "wf_frameworks d \<Longrightarrow> wf_frameworks (snd (java_loop entries d))"
proof (induction entries arbitrary: d)
  case Nil
  then show ?case by simp
next
  case (Cons entry entries)
  show ?case
  proof (cases entry)
    case (Inl e)
    with Cons.prems show ?thesis by simp
  next
    case (Inr vh)
    obtain version home where vh: "vh = (version, home)" by (cases vh)
    show ?thesis
    proof (cases home)
      case (Inl e)
      with Inr vh Cons show ?thesis by simp
    next
      case (Inr java_home)
      have "wf_frameworks (dict_set (''Java '' @ version)
          [(''version'', Str version), (''path'', java_home), (''type'', Str ''java''),
           (''eol_status'', Str (check_java_eol version))] d)"
        using Cons.prems by (intro wf_frameworks_dict_set has_eol_status_literal check_eol_range)
      from Cons.IH [OF this] show ?thesis
        using \<open>entry = Inr vh\<close> vh Inr by simp
    qed
  qed
qed


lemma wf_dotnet_loop:
  "wf_frameworks d \<Longrightarrow> wf_frameworks (dotnet_loop lines d)"
proof (induction lines arbitrary: d)
  case Nil
  then show ?case by simp
next
  case (Cons line lines)
  show ?case
  proof (cases "strip line \<noteq> [] \<and> match_runtime_line line \<noteq> None")
    case False
    with Cons show ?thesis by (auto split: option.splits)
  next
    case True
    then obtain runtime version path
      where m: "match_runtime_line line = Some (runtime, version, path)"
      by (cases "match_runtime_line line") auto
    have "wf_frameworks (dict_set (runtime @ '' '' @ version)
        [(''version'', Str version), (''runtime'', Str runtime), (''path'', Str path),
         (''type'', Str ''dotnet_core''),
         (''eol_status'', Str (check_dotnet_core_eol version))] d)"
      using Cons.prems by (intro wf_frameworks_dict_set has_eol_status_literal check_eol_range)
    from Cons.IH [OF this] show ?thesis
      using True m by simp
  qed
qed

lemma wf_mssql_loop:
  "wf_frameworks d \<Longrightarrow> wf_frameworks (snd (mssql_loop entries d))"
proof (induction entries arbitrary: d)
  case Nil
  then show ?case by simp
next
  case (Cons entry entries)
  have step: "wf_frameworks (dict_set key
      [(''version'', Str v), (''path'', path), (''type'', Str ''mssql''),
       (''eol_status'', Str (check_mssql_eol v))] d)" for key v path
    using Cons.prems by (intro wf_frameworks_dict_set has_eol_status_literal check_eol_range)
  show ?case
    using Cons.prems Cons.IH [OF Cons.prems] Cons.IH [OF step]
    by (auto split: sum.splits prod.splits pyval.splits)
qed

lemma wf_mysql_loop:
  "wf_frameworks d \<Longrightarrow> wf_frameworks (snd (mysql_loop gp services d))"
proof (induction services arbitrary: d)
  case Nil
  then show ?case by simp
next
  case (Cons service services)
  have step: "wf_frameworks (dict_set key
      [(''version'', Str v), (''path'', path), (''type'', Str ''mysql''),
       (''eol_status'', Str (check_mysql_eol v))] d)" for key v path
    using Cons.prems by (intro wf_frameworks_dict_set has_eol_status_literal check_eol_range)
  show ?case
    using Cons.prems Cons.IH [OF Cons.prems] Cons.IH [OF step]
    by (auto simp: Let_def split: sum.splits option.splits)
qed

lemma wf_postgresql_loop:
  "wf_frameworks d \<Longrightarrow> wf_frameworks (snd (postgresql_loop gp services d))"
proof (induction services arbitrary: d)
  case Nil
  then show ?case by simp
next
  case (Cons service services)
  have step: "wf_frameworks (dict_set key
      [(''version'', Str v), (''path'', path), (''type'', Str ''postgresql''),
       (''eol_status'', Str (check_postgresql_eol v))] d)" for key v path
    using Cons.prems by (intro wf_frameworks_dict_set has_eol_status_literal check_eol_range)
  show ?case
    using Cons.prems Cons.IH [OF Cons.prems] Cons.IH [OF step]
    by (auto simp: Let_def split: sum.splits option.splits)
qed

lemma wf_detect_java_installations:
  "detect_java_installations h = Inr d \<Longrightarrow> wf_frameworks d"
  using wf_java_loop [OF wf_frameworks_Nil, of "projr (java_registry h)"]
  by (auto simp: detect_java_installations_def wf_frameworks_Nil
      split: sum.splits prod.splits option.splits)

lemma wf_detect_dotnet_core:
  "detect_dotnet_core h = Inr d \<Longrightarrow> wf_frameworks d"
  using wf_dotnet_loop [OF wf_frameworks_Nil]
  by (auto simp: detect_dotnet_core_def wf_frameworks_Nil
      split: sum.splits prod.splits if_splits)

lemma wf_detect_sql_server_instances:
  "detect_sql_server_instances h = Inr d \<Longrightarrow> wf_frameworks d"
  using wf_mssql_loop [OF wf_frameworks_Nil, of "projr (mssql_registry h)"]
  by (auto simp: detect_sql_server_instances_def wf_frameworks_Nil
      split: sum.splits prod.splits option.splits)

lemma wf_detect_mysql_instances:
  "detect_mysql_instances h = Inr d \<Longrightarrow> wf_frameworks d"
  using wf_mysql_loop [OF wf_frameworks_Nil, of "grandparent h" "projr (mysql_services h)"]
  by (auto simp: detect_mysql_instances_def wf_frameworks_Nil
      split: sum.splits prod.splits option.splits)

lemma wf_detect_postgresql_instances:
  "detect_postgresql_instances h = Inr d \<Longrightarrow> wf_frameworks d"
  using wf_postgresql_loop [OF wf_frameworks_Nil, of "grandparent h" "projr (postgresql_services h)"]
  by (auto simp: detect_postgresql_instances_def wf_frameworks_Nil
      split: sum.splits prod.splits option.splits)

lemma set_dict_update: "set (dict_update d other) \<subseteq> set d \<union> set other"
  unfolding dict_update_def
proof (induction other arbitrary: d)
  case Nil
  show ?case by simp
next
  case (Cons kv other)
  obtain k v where kv: "kv = (k, v)" by (cases kv)
  have "set (fold (\<lambda>(k, v). dict_set k v) other (dict_set k v d))
      \<subseteq> set (dict_set k v d) \<union> set other"
    by (rule Cons.IH)
  also have "\<dots> \<subseteq> insert (k, v) (set d) \<union> set other"
    using set_dict_set [of k v d] by auto
  finally show ?case by (auto simp: kv)
qed

lemma wf_dict_update:
  assumes "wf_frameworks d" and "wf_frameworks other"
  shows "wf_frameworks (dict_update d other)"
  using assms set_dict_update [of d other]
  unfolding wf_frameworks_def by (auto simp: distinct_dict_update)

lemma map_of_dict_update_wf:
  "wf_frameworks other \<Longrightarrow> map_of (dict_update d other) = map_of d ++ map_of other"
  by (simp add: wf_frameworks_def map_of_dict_update)

section \<open>Which exceptions leave the detectors\<close>

lemma detect_java_installations_returns: "\<exists>d. detect_java_installations h = Inr d"
  by (auto simp: detect_java_installations_def split: sum.splits prod.splits option.splits)

lemma detect_sql_server_instances_returns: "\<exists>d. detect_sql_server_instances h = Inr d"
  by (auto simp: detect_sql_server_instances_def split: sum.splits prod.splits option.splits)

lemma detect_mysql_instances_returns: "\<exists>d. detect_mysql_instances h = Inr d"
  by (auto simp: detect_mysql_instances_def split: sum.splits prod.splits option.splits)

lemma detect_postgresql_instances_returns: "\<exists>d. detect_postgresql_instances h = Inr d"
  by (auto simp: detect_postgresql_instances_def split: sum.splits prod.splits option.splits)

lemma detect_sql_databases_returns: "\<exists>d. detect_sql_databases h = Inr d"
  using detect_sql_server_instances_returns [of h] detect_mysql_instances_returns [of h]
    detect_postgresql_instances_returns [of h]
  by (auto simp: detect_sql_databases_def)

lemma detect_dotnet_core_raises:
  "detect_dotnet_core h = Inl e \<longleftrightarrow> dotnet_cli h = Inl e \<and> e \<noteq> FileNotFoundError"
proof (cases "dotnet_cli h")
  case (Inl e')
  then show ?thesis
    by (cases e') (auto simp: detect_dotnet_core_def)
next
  case (Inr r)
  then show ?thesis
    by (cases r) (auto simp: detect_dotnet_core_def)
qed

lemma detect_frameworks_raises:
  "detect_frameworks h self = Inl e \<longleftrightarrow> dotnet_cli h = Inl e \<and> e \<noteq> FileNotFoundError"
proof -
  obtain java where j: "detect_java_installations h = Inr java"
    using detect_java_installations_returns by blast
  obtain sql where s: "detect_sql_databases h = Inr sql"
    using detect_sql_databases_returns by blast
  show ?thesis
    unfolding detect_dotnet_core_raises [symmetric]
    by (cases "detect_dotnet_core h") (simp_all add: detect_frameworks_def j s)
qed

lemma scan_all_phases:
  "scan_all h self =
     (case detect_frameworks h self of
        Inl e \<Rightarrow> Inl e
      | Inr self1 \<Rightarrow>
          Inr (generate_report h
                 (scan_running_processes h (scan_installed_applications h self1))))"
  by (cases "detect_frameworks h self") (simp_all add: scan_all_def Let_def)

lemma scan_all_raises:
  "scan_all h self = Inl e \<longleftrightarrow> dotnet_cli h = Inl e \<and> e \<noteq> FileNotFoundError"
  unfolding detect_frameworks_raises [of h self e, symmetric]
  by (cases "detect_frameworks h self") (simp_all add: scan_all_phases)

lemma detect_sql_databases_union:
  assumes "detect_sql_databases h = Inr sql"
  obtains mssql mysql postgres where "detect_sql_server_instances h = Inr mssql"
    and "detect_mysql_instances h = Inr mysql" and "detect_postgresql_instances h = Inr postgres"
    and "map_of sql = map_of mssql ++ map_of mysql ++ map_of postgres"
    and "wf_frameworks sql"
proof -
  from assms obtain mssql mysql postgres where d: "detect_sql_server_instances h = Inr mssql"
    "detect_mysql_instances h = Inr mysql" "detect_postgresql_instances h = Inr postgres"
    and sql: "sql = dict_update (dict_update (dict_update [] mssql) mysql) postgres"
    by (auto simp: detect_sql_databases_def split: sum.splits)
  have wf: "wf_frameworks mssql" "wf_frameworks mysql" "wf_frameworks postgres"
    using d(1) apply (rule wf_detect_sql_server_instances)
    using d(2) apply (rule wf_detect_mysql_instances)
    using d(3) apply (rule wf_detect_postgresql_instances)
    done
  have "map_of sql = map_of mssql ++ map_of mysql ++ map_of postgres"
    unfolding sql by (simp add: map_of_dict_update_wf wf)
  moreover have "wf_frameworks sql"
    unfolding sql by (intro wf_dict_update wf wf_frameworks_Nil)
  ultimately show ?thesis using d by (intro that)
qed

lemma detect_frameworks_union:
  assumes "detect_frameworks h self = Inr self'"
  obtains java dotnet sql where "detect_java_installations h = Inr java"
    and "detect_dotnet_core h = Inr dotnet" and "detect_sql_databases h = Inr sql"
    and "map_of (installed_frameworks self') = map_of java ++ map_of dotnet ++ map_of sql"
    and "wf_frameworks (installed_frameworks self')"
proof -
  from assms obtain java dotnet sql where d: "detect_java_installations h = Inr java"
    "detect_dotnet_core h = Inr dotnet" "detect_sql_databases h = Inr sql"
    and fw: "installed_frameworks self'
       = dict_update (dict_update (dict_update [] java) dotnet) sql"
    by (auto simp: detect_frameworks_def split: sum.splits)
  from d(3) have wfs: "wf_frameworks sql" by (rule detect_sql_databases_union)
  have wf: "wf_frameworks java" "wf_frameworks dotnet"
    using d(1) apply (rule wf_detect_java_installations)
    using d(2) apply (rule wf_detect_dotnet_core)
    done
  have "map_of (installed_frameworks self') = map_of java ++ map_of dotnet ++ map_of sql"
    unfolding fw by (simp add: map_of_dict_update_wf wf wfs)
  moreover have "wf_frameworks (installed_frameworks self')"
    unfolding fw by (intro wf_dict_update wf wfs wf_frameworks_Nil)
  ultimately show ?thesis using d by (intro that)
qed

section \<open>The annotations of the dependency records\<close>

lemma static_record_fields:
  "map_of (static_record p) ''confidence'' = Some (Str ''high'')"
  "map_of (static_record p) ''status'' = None"
  "map_of (static_record p) ''detection_method'' = Some (Str ''static_analysis'')"
  "map_of (static_record p) ''framework'' = Some (Str ''Java Runtime'')"
  by (simp_all add: static_record_def)

lemma runtime_record_fields:
  "map_of (dotnet_runtime_record proc e v p) ''confidence'' = Some (Str ''high'')"
  "map_of (dotnet_runtime_record proc e v p) ''status'' = Some (Str ''running'')"
  "map_of (dotnet_runtime_record proc e v p) ''detection_method'' = Some (Str ''runtime_analysis'')"
  "map_of (java_runtime_record proc e jv jp) ''confidence'' = Some (Str ''high'')"
  "map_of (java_runtime_record proc e jv jp) ''status'' = Some (Str ''running'')"
  "map_of (java_runtime_record proc e jv jp) ''detection_method'' = Some (Str ''runtime_analysis'')"
  by (simp_all add: dotnet_runtime_record_def java_runtime_record_def)

lemma records_analyze_file_dependencies:
  "set (all_records (dependencies (analyze_file_dependencies self file_path)))
     = insert (static_record file_path) (set (all_records (dependencies self)))"
  by (simp add: analyze_file_dependencies_def all_records_dict_append)

lemma records_analyze_running_process:
  assumes "r \<in> set (all_records (dependencies (analyze_running_process self proc)))"
    and "r \<notin> set (all_records (dependencies self))"
  shows "map_of r ''confidence'' = Some (Str ''high'')
    \<and> map_of r ''status'' = Some (Str ''running'')
    \<and> map_of r ''detection_method'' = Some (Str ''runtime_analysis'')"
  using assms unfolding analyze_running_process_def
  by (auto simp: all_records_dict_append runtime_record_fields Let_def
      split: option.splits sum.splits prod.splits if_splits)

lemma annotated_static_record: "annotated (static_record p)"
  by (simp add: annotated_def static_record_fields)

lemma all_annotated_analyze_file_dependencies:
  "all_annotated self \<Longrightarrow> all_annotated (analyze_file_dependencies self file_path)"
  by (simp add: all_annotated_def list_all_iff records_analyze_file_dependencies
      annotated_static_record)

lemma all_annotated_analyze_running_process:
  assumes "all_annotated self"
  shows "all_annotated (analyze_running_process self proc)"
  unfolding all_annotated_def list_all_iff
proof
  fix r
  assume r: "r \<in> set (all_records (dependencies (analyze_running_process self proc)))"
  show "annotated r"
  proof (cases "r \<in> set (all_records (dependencies self))")
    case True
    with assms show ?thesis by (simp add: all_annotated_def list_all_iff)
  next
    case False
    with r show ?thesis
      using records_analyze_running_process [of r self proc] by (simp add: annotated_def)
  qed
qed

lemma all_annotated_scan_directory:
  "all_annotated self \<longrightarrow> all_annotated (scan_directory_for_dependencies h directory max_depth self)"
  "all_annotated self \<longrightarrow> all_annotated (scan_items h directory names max_depth self)"
proof (induction h directory max_depth self and h directory names max_depth self
    rule: scan_directory_for_dependencies_scan_items.induct)
  case (1 h directory max_depth self)
  then show ?case
    by (auto simp: scan_directory_for_dependencies.simps split: sum.splits)
next
  case (2 h directory max_depth self)
  show ?case by simp
next
  case (3 h directory name names max_depth self)
  then show ?case
    by (auto simp: Let_def all_annotated_analyze_file_dependencies split: sum.splits)
qed

lemma all_annotated_scan_installed_applications:
  assumes "all_annotated self"
  shows "all_annotated (scan_installed_applications h self)"
proof -
  have "all_annotated self \<Longrightarrow> all_annotated
      (fold (\<lambda>prog_dir self.
             if path_exists h prog_dir then scan_directory_for_dependencies h prog_dir 3 self
             else self) ds self)" for ds self
    by (induction ds arbitrary: self) (auto simp: all_annotated_scan_directory)
  with assms show ?thesis by (simp add: scan_installed_applications_def)
qed

lemma all_annotated_scan_running_processes:
  assumes "all_annotated self"
  shows "all_annotated (scan_running_processes h self)"
proof -
  have "all_annotated self \<Longrightarrow> all_annotated
      (fold (\<lambda>proc self. if truthy (proc_exe proc) then analyze_running_process self proc
                          else self) ps self)" for ps self
    by (induction ps arbitrary: self) (auto simp: all_annotated_analyze_running_process)
  with assms show ?thesis by (simp add: scan_running_processes_def)
qed

lemma dependencies_detect_frameworks:
  "detect_frameworks h self = Inr self' \<Longrightarrow> dependencies self' = dependencies self"
  by (auto simp: detect_frameworks_def split: sum.splits)

lemma all_annotated_scan_all:
  assumes "scan_all h self = Inr rep" and "all_annotated self"
  shows "list_all annotated (all_records (report_dependencies rep))"
proof -
  from assms(1) obtain self1 where 1: "detect_frameworks h self = Inr self1"
    and rep: "rep = generate_report h
        (scan_running_processes h (scan_installed_applications h self1))"
    by (auto simp: scan_all_def Let_def split: sum.splits)
  from 1 assms(2) have "all_annotated self1"
    by (simp add: all_annotated_def dependencies_detect_frameworks)
  then have "all_annotated (scan_running_processes h (scan_installed_applications h self1))"
    by (intro all_annotated_scan_running_processes all_annotated_scan_installed_applications)
  then show ?thesis
    by (simp add: rep generate_report_def all_annotated_def)
qed

section \<open>The scan of the sample host\<close>

lemma host1_lookups:
  "java_registry host1 = Inl FileNotFoundError"
  "dotnet_cli host1 = Inl FileNotFoundError"
  "mssql_registry host1 = Inl FileNotFoundError"
  "mysql_services host1 = Inr []"
  "postgresql_services host1 = Inr []"
  "path_exists host1 p = (p = program_data)"
  "iterdir host1 program_data = Inr [''App'']"
  "iterdir host1 (program_data @ [''App'']) = Inr [''lib.JAR'', ''.cache'', ''readme.txt'']"
  "is_file host1 p = Inr (p = program_data @ [''App'', ''lib.JAR'']
                           \<or> p = program_data @ [''App'', ''readme.txt''])"
  "is_dir host1 p = Inr (p = program_data @ [''App''] \<or> p = program_data @ [''App'', ''.cache''])"
  "process_iter host1 = [proc1]"
  "boot_time host1 = ''1700000000.0''"
  by (simp_all add: host1_def)

lemma detect_frameworks_host1: "detect_frameworks host1 self = Inr (self\<lparr>installed_frameworks := []\<rparr>)"
  by (simp add: detect_frameworks_def detect_java_installations_def detect_dotnet_core_def
      detect_sql_databases_def detect_sql_server_instances_def detect_mysql_instances_def
      detect_postgresql_instances_def host1_lookups dict_update_def)

lemma lower_JAR: "lower ''.JAR'' = ''.jar''" "lower ''.txt'' = ''.txt''"
  by code_simp+

lemma suffix_samples:
  "path_suffix (program_data @ [''App'', ''lib.JAR'']) = ''.JAR''"
  "path_suffix (program_data @ [''App'', ''readme.txt'']) = ''.txt''"
  "path_suffix (program_data @ [''App'', ''.cache'']) = []"
  "path_suffix (program_data @ [''App'']) = []"
  by (simp_all add: path_suffix_def path_name_def rfind_dot_def program_data_def)

lemma scan_installed_applications_host1:
  "scan_installed_applications host1 init
     = init\<lparr>dependencies := [(''java'', [static_record (program_data @ [''App'', ''lib.JAR''])])]\<rparr>"
proof -
  have ne: "[[CHR ''C'', CHR '':'', bs], ''Program Files''] \<noteq> program_data"
    "[[CHR ''C'', CHR '':'', bs], ''Program Files (x86)''] \<noteq> program_data"
    by (simp_all add: program_data_def)
  have pd: "[[CHR ''C'', CHR '':'', bs], ''ProgramData''] = program_data"
    by (simp add: program_data_def)
  have app: "scan_directory_for_dependencies host1 (program_data @ [''App'']) 2 init
      = init\<lparr>dependencies := [(''java'', [static_record (program_data @ [''App'', ''lib.JAR''])])]\<rparr>"
    by (simp add: scan_directory_for_dependencies.simps host1_lookups suffix_samples lower_JAR
        analyze_file_dependencies_def dict_append_def init_def)
  have "scan_directory_for_dependencies host1 program_data 3 init
      = init\<lparr>dependencies := [(''java'', [static_record (program_data @ [''App'', ''lib.JAR''])])]\<rparr>"
    using app
    by (simp add: scan_directory_for_dependencies.simps [of host1 program_data] host1_lookups suffix_samples)
  then show ?thesis
    by (simp add: scan_installed_applications_def program_dirs_def ne pd host1_lookups)
qed



lemma proc1_facts:
  "proc_exe proc1 = Some java_exe" "java_exe \<noteq> []"
  "proc_name proc1 = Some ''java.exe''" "proc_pid proc1 = 4242"
  by (simp_all add: proc1_def java_exe_def)

lemma proc1_java: "is_java_process proc1"
  by code_simp

lemma proc1_version: "detect_java_version_from_process proc1 = (''Unknown'', Str java_exe)"
  by code_simp

lemma dotnet_proc1:
  "get_dotnet_core_version_from_process proc1 = Inr (Some (''8.0.1 (netcore)'', coreclr_801))"
  by code_simp

lemma analyze_proc1:
  "analyze_running_process self proc1 =
     self\<lparr>dependencies :=
       dict_append ''java_runtime'' (java_runtime_record proc1 java_exe ''Unknown'' (Str java_exe))
         (dict_append ''dotnet_runtime''
            (dotnet_runtime_record proc1 java_exe ''8.0.1 (netcore)'' coreclr_801)
            (dependencies self))\<rparr>"
  by (simp add: analyze_running_process_def proc1_facts proc1_java proc1_version dotnet_proc1)

lemma scan_all_host1: "scan_all host1 init = Inr report1"
  by (simp add: scan_all_def detect_frameworks_host1 scan_installed_applications_host1 [unfolded init_def]
      init_def scan_running_processes_def host1_lookups truthy_def proc1_facts analyze_proc1
      dict_append_def generate_report_def report1_def)

section \<open>The detectors on the sample hosts\<close>

lemma host0_detectors:
  "detect_java_installations host0 = Inr [(''Java 1.8'', java_1_8)]"
  "detect_dotnet_core host0 = Inr [(''Java 1.8'', dotnet_java_1_8)]"
  "detect_sql_databases host0 = Inr []"
  by code_simp+

lemma detect_frameworks_host0:
  "detect_frameworks host0 init = Inr (init\<lparr>installed_frameworks := [(''Java 1.8'', dotnet_java_1_8)]\<rparr>)"
  by (simp add: detect_frameworks_def host0_detectors dict_update_def dict_set_def)

lemma host2_detectors:
  "detect_sql_server_instances host2
     = Inr [(''Microsoft SQL Server 12 (Instance: MSSQLSERVER)'',
             [(''version'', Str ''12.0.2000.8''), (''path'', Str ''C:/SQL''), (''type'', Str ''mssql''),
              (''eol_status'', Str ''EOL'')])]"
  "detect_mysql_instances host2
     = Inr [(''MySQL Server 8.0.33'',
             [(''version'', Str ''8.0.33''), (''path'', Str (''C:'' @ bs # ''MySQL'' @ bs # ''MySQL Server 8.0.33'')),
              (''type'', Str ''mysql''), (''eol_status'', Str ''Supported'')])]"
  "detect_postgresql_instances host2
     = Inr [(''PostgreSQL 13'',
             [(''version'', Str ''13''), (''path'', Str (''C:'' @ bs # ''PostgreSQL'' @ bs # ''13'')),
              (''type'', Str ''postgresql''), (''eol_status'', Str ''Supported'')])]"
  by code_simp+

section \<open>The walk of the static scan\<close>

lemma java_records_analyze_file [simp]:
  "java_records (analyze_file_dependencies self item)
     = insert (static_record item) (java_records self)"
  by (cases "map_of (dependencies self) ''java''")
    (simp_all add: java_records_def analyze_file_dependencies_def dict_append_def
      map_of_dict_set map_add_def)




lemma through_Nil [simp]: "\<not> through h directory [] m f"
  by (simp add: through_def)
















section \<open>The walk on the sample hosts\<close>













section \<open>The claims\<close>

subsection \<open>C9: the prefixes check_dotnet_core_eol classifies as EOL\<close>

text \<open>
  C9. For every version string \<open>v\<close>, \<open>check_dotnet_core_eol\<close> returns \<open>'EOL'\<close> if and only
  if \<open>v\<close> starts with one of \<open>'1.0'\<close>, \<open>'1.1'\<close>, \<open>'2.0'\<close>, \<open>'2.1'\<close>, \<open>'2.2'\<close>, \<open>'3.0'\<close>,
  \<open>'3.1'\<close>, \<open>'5.0'\<close> or \<open>'6.07.0'\<close>; a version that starts with \<open>'6.0'\<close> or \<open>'7.0'\<close> and not
  with \<open>'6.07.0'\<close> is \<open>'Supported'\<close>.
\<close>

theorem check_dotnet_core_eol_prefixes:
  "(check_dotnet_core_eol v = ''EOL'' \<longleftrightarrow>
      (\<exists>p \<in> set [''1.0'', ''1.1'', ''2.0'', ''2.1'', ''2.2'', ''3.0'', ''3.1'', ''5.0'',
        ''6.07.0'']. prefix p v))
   \<and> ((prefix ''6.0'' v \<or> prefix ''7.0'' v) \<and> \<not> prefix ''6.07.0'' v \<longrightarrow>
        check_dotnet_core_eol v = ''Supported'')"
proof (intro conjI impI)
  show "check_dotnet_core_eol v = ''EOL'' \<longleftrightarrow>
      (\<exists>p \<in> set [''1.0'', ''1.1'', ''2.0'', ''2.1'', ''2.2'', ''3.0'', ''3.1'', ''5.0'',
        ''6.07.0'']. prefix p v)"
    unfolding check_dotnet_core_eol_def prefix_eol_versions [symmetric] by simp
next
  assume "(prefix ''6.0'' v \<or> prefix ''7.0'' v) \<and> \<not> prefix ''6.07.0'' v"
  then have "\<not> list_ex (\<lambda>p. prefix p v) eol_versions"
    using prefix_6_or_7 by blast
  then show "check_dotnet_core_eol v = ''Supported''"
    by (simp add: check_dotnet_core_eol_def)
qed

theorem check_dotnet_core_eol_prefixes_witness:
  "check_dotnet_core_eol ''6.0.36'' = ''Supported''
   \<and> check_dotnet_core_eol ''7.0.20'' = ''Supported''
   \<and> check_dotnet_core_eol ''6.07.0'' = ''EOL''
   \<and> check_dotnet_core_eol ''3.1.32'' = ''EOL''"
  using check_dotnet_core_eol_prefixes [of "''6.0.36''"]
    check_dotnet_core_eol_prefixes [of "''7.0.20''"]
    check_dotnet_core_eol_prefixes [of "''6.07.0''"]
    check_dotnet_core_eol_prefixes [of "''3.1.32''"]
  by simp

subsection \<open>C10: check_java_eol reads the second dot-separated component\<close>

text \<open>
  C10. For every version string \<open>v\<close>, \<open>check_java_eol\<close> returns \<open>'EOL'\<close> exactly when \<open>v\<close>
  has a second dot-separated component that \<open>int\<close> parses to a number below 11,
  \<open>'Supported'\<close> exactly when that component parses to a number of at least 11, and
  \<open>'Unknown'\<close> exactly when \<open>v\<close> has no \<open>'.'\<close> or the second component does not parse.
\<close>

theorem check_java_eol_classification:
  "(check_java_eol v = ''EOL'' \<longleftrightarrow>
      (\<exists>a c rest n. split_chr CHR ''.'' v = a # c # rest \<and> py_int c = Some n \<and> n < 11))
   \<and> (check_java_eol v = ''Supported'' \<longleftrightarrow>
      (\<exists>a c rest n. split_chr CHR ''.'' v = a # c # rest \<and> py_int c = Some n \<and> 11 \<le> n))
   \<and> (check_java_eol v = ''Unknown'' \<longleftrightarrow>
      (CHR ''.'' \<notin> set v \<or>
       (\<exists>a c rest. split_chr CHR ''.'' v = a # c # rest \<and> py_int c = None)))"
proof (cases "index (split_chr CHR ''.'' v) 1")
  case None
  then have nodot: "CHR ''.'' \<notin> set v"
    using index_1_split_chr [of "CHR ''.''" v] by blast
  then have "split_chr CHR ''.'' v = [v]"
    by (rule split_chr_no_sep)
  with None nodot show ?thesis
    by (simp add: check_java_eol_def)
next
  case (Some c)
  then obtain a rest where sp: "split_chr CHR ''.'' v = a # c # rest"
    using split_chr_index1 [of "CHR ''.''" v c] by blast
  have dot: "CHR ''.'' \<in> set v"
    using Some index_1_split_chr [of "CHR ''.''" v] by auto
  show ?thesis
  proof (cases "py_int c")
    case None
    with Some sp dot show ?thesis by (simp add: check_java_eol_def)
  next
    case (Some n)
    with \<open>index (split_chr CHR ''.'' v) 1 = Some c\<close> sp dot show ?thesis
      by (simp add: check_java_eol_def)
  qed
qed

theorem check_java_eol_classification_witness:
  "check_java_eol ''1.8'' = ''EOL'' \<and> check_java_eol ''9.0.1'' = ''EOL''
   \<and> check_java_eol ''17.0.2'' = ''EOL'' \<and> check_java_eol ''1.11'' = ''Supported''
   \<and> check_java_eol ''17'' = ''Unknown'' \<and> check_java_eol ''1.x'' = ''Unknown''"
proof -
  have e: "py_int ''8'' = Some 8" "py_int ''0'' = Some 0" "py_int ''11'' = Some 11"
    "py_int ''x'' = None"
    by (simp_all add: py_int_def int_strip_def is_int_space_def unsigned_int_def
        is_digit_def digit_val_def)
  show ?thesis
    using check_java_eol_classification [of "''1.8''"]
      check_java_eol_classification [of "''9.0.1''"]
      check_java_eol_classification [of "''17.0.2''"]
      check_java_eol_classification [of "''1.11''"]
      check_java_eol_classification [of "''17''"]
      check_java_eol_classification [of "''1.x''"]
    by (simp add: e)
qed

subsection \<open>C7: generate_report copies the two aggregates and counts them\<close>

text \<open>
  C7. The report's \<open>installed_frameworks\<close> is the accumulated framework map and its
  \<open>dependencies\<close> the accumulated per-category lists, unchanged; \<open>frameworks_found\<close> is the
  number of framework keys (the keys of a dictionary are distinct) and
  \<open>dependencies_found\<close> the number of dependency records of all categories together.
\<close>

theorem generate_report_serializes:
  "report_installed_frameworks (generate_report h self) = installed_frameworks self
   \<and> report_dependencies (generate_report h self) = dependencies self
   \<and> frameworks_found (summary (generate_report h self)) = length (installed_frameworks self)
   \<and> (distinct (map fst (installed_frameworks self)) \<longrightarrow>
        frameworks_found (summary (generate_report h self))
          = card (fst ` set (installed_frameworks self)))
   \<and> dependencies_found (summary (generate_report h self))
        = length (all_records (dependencies self))"
proof -
  have "distinct (map fst (installed_frameworks self)) \<longrightarrow>
      length (installed_frameworks self) = card (fst ` set (installed_frameworks self))"
    using distinct_card [of "map fst (installed_frameworks self)"] by auto
  then show ?thesis
    by (simp add: generate_report_def length_all_records)
qed

theorem generate_report_serializes_witness:
  "frameworks_found (summary (generate_report host0 scanner0)) = 2
   \<and> card (fst ` set (installed_frameworks scanner0)) = 2
   \<and> dependencies_found (summary (generate_report host0 scanner0)) = 2"
proof -
  have d: "distinct (map fst (installed_frameworks scanner0))"
    by (simp add: scanner0_def)
  have l: "length (installed_frameworks scanner0) = 2"
    "length (all_records (dependencies scanner0)) = 2"
    by (simp_all add: scanner0_def all_records_def)
  show ?thesis
    using generate_report_serializes [of host0 scanner0] d l by simp
qed

subsection \<open>C6: the annotations of the dependency records\<close>

text \<open>
  C6 as stated fails: the record \<open>analyze_file_dependencies\<close> appends has no key
  \<open>'status'\<close>. On \<open>host1\<close> the report holds the static record of \<open>lib.JAR\<close>, and looking up
  \<open>'status'\<close> in it finds nothing.
\<close>

theorem static_record_without_status:
  "scan_all host1 init = Inr report1
   \<and> static_record (program_data @ [''App'', ''lib.JAR''])
        \<in> set (all_records (report_dependencies report1))
   \<and> map_of (static_record (program_data @ [''App'', ''lib.JAR''])) ''status'' = None"
  by (simp add: scan_all_host1 static_record_fields) (simp add: report1_def all_records_def)

text \<open>
  C6, amended. Every dependency record carries \<open>'confidence': 'high'\<close>. The records
  \<open>analyze_running_process\<close> appends carry \<open>'status': 'running'\<close>; the record
  \<open>analyze_file_dependencies\<close> appends carries no \<open>'status'\<close>. In the report of a scan that
  starts from the empty scanner every record is of one of these two kinds.
\<close>

theorem dependency_record_annotations:
  "(set (all_records (dependencies (analyze_file_dependencies self file_path)))
      = insert (static_record file_path) (set (all_records (dependencies self)))
    \<and> map_of (static_record file_path) ''confidence'' = Some (Str ''high'')
    \<and> map_of (static_record file_path) ''status'' = None)
   \<and> (\<forall>r \<in> set (all_records (dependencies (analyze_running_process self proc)))
              - set (all_records (dependencies self)).
          map_of r ''confidence'' = Some (Str ''high'')
          \<and> map_of r ''status'' = Some (Str ''running''))
   \<and> (scan_all h init = Inr rep \<longrightarrow>
          list_all annotated (all_records (report_dependencies rep)))"
proof (intro conjI ballI impI)
  show "set (all_records (dependencies (analyze_file_dependencies self file_path)))
      = insert (static_record file_path) (set (all_records (dependencies self)))"
    by (rule records_analyze_file_dependencies)
next
  show "map_of (static_record file_path) ''confidence'' = Some (Str ''high'')"
    by (rule static_record_fields)
next
  show "map_of (static_record file_path) ''status'' = None"
    by (rule static_record_fields)
next
  fix r
  assume "r \<in> set (all_records (dependencies (analyze_running_process self proc)))
              - set (all_records (dependencies self))"
  then have "map_of r ''confidence'' = Some (Str ''high'')
    \<and> map_of r ''status'' = Some (Str ''running'')
    \<and> map_of r ''detection_method'' = Some (Str ''runtime_analysis'')"
    using records_analyze_running_process [of r self proc] by blast
  then show "map_of r ''confidence'' = Some (Str ''high'')"
    and "map_of r ''status'' = Some (Str ''running'')"
    by simp_all
next
  assume "scan_all h init = Inr rep"
  moreover have "all_annotated init"
    by (simp add: all_annotated_def init_def all_records_def)
  ultimately show "list_all annotated (all_records (report_dependencies rep))"
    by (rule all_annotated_scan_all)
qed

theorem dependency_record_annotations_witness:
  "scan_all host1 init = Inr report1
   \<and> list_all annotated (all_records (report_dependencies report1))
   \<and> dotnet_runtime_record proc1 java_exe ''8.0.1 (netcore)'' coreclr_801
        \<in> set (all_records (dependencies (analyze_running_process init proc1)))
          - set (all_records (dependencies init))
   \<and> map_of (dotnet_runtime_record proc1 java_exe ''8.0.1 (netcore)'' coreclr_801) ''status''
        = Some (Str ''running'')"
proof -
  have m: "dotnet_runtime_record proc1 java_exe ''8.0.1 (netcore)'' coreclr_801
        \<in> set (all_records (dependencies (analyze_running_process init proc1)))
          - set (all_records (dependencies init))"
    by (simp add: analyze_proc1 all_records_dict_append) (simp add: init_def all_records_def)
  show ?thesis
    using dependency_record_annotations [of init "[]" proc1 host1 report1] scan_all_host1 m
    by blast
qed

subsection \<open>C2: the version read from the loaded modules\<close>

text \<open>
  C2 as stated fails: the loop has a second test. A module whose lower-cased path
  contains \<open>coreclr.dll\<close> and not \<open>microsoft.net\<close> ends the loop with the version
  \<open>Self-Contained (<process name>)\<close>. For \<open>proc2\<close> no module matches the pattern, and
  the result is not \<open>(None, None)\<close>.
\<close>

theorem self_contained_without_regex_match:
  "proc_memory_maps proc2 = Inr [ntdll, app_coreclr]
   \<and> re_search core_match (lower ntdll) = None
   \<and> re_search core_match (lower app_coreclr) = None
   \<and> get_dotnet_core_version_from_process proc2
       = Inr (Some (''Self-Contained (MyApp.exe)'', app_coreclr))"
  by code_simp

text \<open>
  C2, amended. When \<open>memory_maps()\<close> gives the module list, the function goes through it
  in order and stops at the first module whose lower-cased path matches the pattern
  \<^verbatim>\<open>\dotnet\shared\microsoft.(netcore|aspnetcore).app\<version>\coreclr.dll\<close> or, failing
  that, contains \<open>coreclr.dll\<close> and not \<open>microsoft.net\<close>. In the first case it returns
  \<open><version> (netcore)\<close> or \<open><version> (aspnetcore)\<close> of a match in that path, in the second
  \<open>Self-Contained (<process name>)\<close>, each with the module's path; it returns
  \<open>(None, None)\<close> when no module passes either test.
\<close>

theorem get_dotnet_core_version_first_match:
  "proc_memory_maps proc = Inr dlls \<longrightarrow>
     (list_all neither dlls \<longrightarrow> get_dotnet_core_version_from_process proc = Inr None)
   \<and> (\<forall>pre path post k v.
         dlls = pre @ path # post \<and> list_all neither pre
         \<and> matches_core_pattern (lower path) k v \<longrightarrow>
         (\<exists>k' v'. matches_core_pattern (lower path) k' v'
            \<and> get_dotnet_core_version_from_process proc
                = Inr (Some (v' @ '' ('' @ k' @ '')'', path))))
   \<and> (\<forall>pre path post.
         dlls = pre @ path # post \<and> list_all neither pre
         \<and> (\<forall>k v. \<not> matches_core_pattern (lower path) k v)
         \<and> is_self_contained (lower path) \<longrightarrow>
         get_dotnet_core_version_from_process proc
           = Inr (Some (''Self-Contained ('' @ format_opt (proc_name proc) @ '')'', path)))"
proof (intro impI conjI allI)
  assume "proc_memory_maps proc = Inr dlls" and "list_all neither dlls"
  then show "get_dotnet_core_version_from_process proc = Inr None"
    by (simp add: get_dotnet_core_version_from_process_def scan_modules_neither)
next
  fix pre path post k v
  assume mm: "proc_memory_maps proc = Inr dlls"
    and "dlls = pre @ path # post \<and> list_all neither pre
         \<and> matches_core_pattern (lower path) k v"
  then have d: "dlls = pre @ path # post" and n: "list_all neither pre"
    and m: "matches_core_pattern (lower path) k v"
    by simp_all
  have "get_dotnet_core_version_from_process proc = scan_modules proc (path # post)"
    unfolding get_dotnet_core_version_from_process_def mm d
    by (simp only: sum.case scan_modules_skip [OF n])
  with scan_modules_core [OF m, of proc post]
  show "\<exists>k' v'. matches_core_pattern (lower path) k' v'
            \<and> get_dotnet_core_version_from_process proc
                = Inr (Some (v' @ '' ('' @ k' @ '')'', path))"
    by simp
next
  fix pre path post
  assume mm: "proc_memory_maps proc = Inr dlls"
    and "dlls = pre @ path # post \<and> list_all neither pre
         \<and> (\<forall>k v. \<not> matches_core_pattern (lower path) k v)
         \<and> is_self_contained (lower path)"
  then have d: "dlls = pre @ path # post" and n: "list_all neither pre"
    and m: "\<forall>k v. \<not> matches_core_pattern (lower path) k v"
    and sc: "is_self_contained (lower path)"
    by simp_all
  have "get_dotnet_core_version_from_process proc = scan_modules proc (path # post)"
    unfolding get_dotnet_core_version_from_process_def mm d
    by (simp only: sum.case scan_modules_skip [OF n])
  with scan_modules_self_contained [OF m sc, of proc post]
  show "get_dotnet_core_version_from_process proc
           = Inr (Some (''Self-Contained ('' @ format_opt (proc_name proc) @ '')'', path))"
    by simp
qed

theorem get_dotnet_core_version_first_match_witness:
  "get_dotnet_core_version_from_process (proc2\<lparr>proc_memory_maps := Inr [ntdll]\<rparr>) = Inr None
   \<and> (\<exists>k' v'. matches_core_pattern (lower coreclr_801) k' v'
         \<and> get_dotnet_core_version_from_process (proc2\<lparr>proc_memory_maps := Inr [ntdll, coreclr_801]\<rparr>)
             = Inr (Some (v' @ '' ('' @ k' @ '')'', coreclr_801)))
   \<and> get_dotnet_core_version_from_process proc2
       = Inr (Some (''Self-Contained ('' @ format_opt (proc_name proc2) @ '')'', app_coreclr))"
proof (intro conjI)
  have n: "list_all neither [ntdll]" by (simp add: neither_ntdll)
  have 1: "proc_memory_maps (proc2\<lparr>proc_memory_maps := Inr [ntdll]\<rparr>) = Inr [ntdll]"
    by simp
  show "get_dotnet_core_version_from_process (proc2\<lparr>proc_memory_maps := Inr [ntdll]\<rparr>) = Inr None"
    using get_dotnet_core_version_first_match [THEN mp, OF 1, THEN conjunct1, THEN mp, OF n] .
  have 2: "proc_memory_maps (proc2\<lparr>proc_memory_maps := Inr [ntdll, coreclr_801]\<rparr>)
      = Inr ([ntdll] @ coreclr_801 # [])"
    by simp
  have h2: "[ntdll] @ coreclr_801 # [] = [ntdll] @ coreclr_801 # [] \<and> list_all neither [ntdll]
      \<and> matches_core_pattern (lower coreclr_801) ''netcore'' ''8.0.1''"
    using n coreclr_801_matches by (intro conjI refl)
  show "\<exists>k' v'. matches_core_pattern (lower coreclr_801) k' v'
         \<and> get_dotnet_core_version_from_process (proc2\<lparr>proc_memory_maps := Inr [ntdll, coreclr_801]\<rparr>)
             = Inr (Some (v' @ '' ('' @ k' @ '')'', coreclr_801))"
    using get_dotnet_core_version_first_match
      [THEN mp, OF 2, THEN conjunct2, THEN conjunct1, rule_format, OF h2] .
  have 3: "proc_memory_maps proc2 = Inr ([ntdll] @ app_coreclr # [])"
    by (simp add: proc2_def)
  have h3: "[ntdll] @ app_coreclr # [] = [ntdll] @ app_coreclr # [] \<and> list_all neither [ntdll]
      \<and> (\<forall>k v. \<not> matches_core_pattern (lower app_coreclr) k v)
      \<and> is_self_contained (lower app_coreclr)"
    using n app_coreclr_facts by (intro conjI refl)
  show "get_dotnet_core_version_from_process proc2
       = Inr (Some (''Self-Contained ('' @ format_opt (proc_name proc2) @ '')'', app_coreclr))"
    using get_dotnet_core_version_first_match
      [THEN mp, OF 3, THEN conjunct2, THEN conjunct2, rule_format, OF h3] .
qed

subsection \<open>C3: the framework map is the right-biased union of the detectors' maps\<close>

text \<open>
  C3. Whenever \<open>detect_frameworks\<close> produces the installed-frameworks map, it is the
  right-biased union of the maps of the detectors in the order Java, .NET Core, SQL, and
  the SQL map is the right-biased union of the MSSQL, MySQL and PostgreSQL maps: a key
  has the record of the last detector in that order that produced it.
\<close>

theorem detect_frameworks_last_write_wins:
  "detect_frameworks h self = Inr self' \<longrightarrow>
     (\<exists>java dotnet mssql mysql postgres sql.
        detect_java_installations h = Inr java \<and> detect_dotnet_core h = Inr dotnet
        \<and> detect_sql_server_instances h = Inr mssql \<and> detect_mysql_instances h = Inr mysql
        \<and> detect_postgresql_instances h = Inr postgres \<and> detect_sql_databases h = Inr sql
        \<and> map_of sql = map_of mssql ++ map_of mysql ++ map_of postgres
        \<and> map_of (installed_frameworks self') = map_of java ++ map_of dotnet ++ map_of sql
        \<and> (\<forall>key. map_of (installed_frameworks self') key =
               (case map_of sql key of
                  Some r \<Rightarrow> Some r
                | None \<Rightarrow>
                    (case map_of dotnet key of
                       Some r \<Rightarrow> Some r
                     | None \<Rightarrow> map_of java key))))"
proof
  assume a: "detect_frameworks h self = Inr self'"
  from a obtain java dotnet sql where d: "detect_java_installations h = Inr java"
    "detect_dotnet_core h = Inr dotnet" "detect_sql_databases h = Inr sql"
    and m: "map_of (installed_frameworks self') = map_of java ++ map_of dotnet ++ map_of sql"
    by (rule detect_frameworks_union)
  from d(3) obtain mssql mysql postgres where s: "detect_sql_server_instances h = Inr mssql"
    "detect_mysql_instances h = Inr mysql" "detect_postgresql_instances h = Inr postgres"
    and ms: "map_of sql = map_of mssql ++ map_of mysql ++ map_of postgres"
    by (rule detect_sql_databases_union)
  have "\<forall>key. map_of (installed_frameworks self') key =
               (case map_of sql key of
                  Some r \<Rightarrow> Some r
                | None \<Rightarrow>
                    (case map_of dotnet key of
                       Some r \<Rightarrow> Some r
                     | None \<Rightarrow> map_of java key))"
    unfolding m by (simp add: map_add_def split: option.splits)
  with d s ms m show "\<exists>java dotnet mssql mysql postgres sql.
        detect_java_installations h = Inr java \<and> detect_dotnet_core h = Inr dotnet
        \<and> detect_sql_server_instances h = Inr mssql \<and> detect_mysql_instances h = Inr mysql
        \<and> detect_postgresql_instances h = Inr postgres \<and> detect_sql_databases h = Inr sql
        \<and> map_of sql = map_of mssql ++ map_of mysql ++ map_of postgres
        \<and> map_of (installed_frameworks self') = map_of java ++ map_of dotnet ++ map_of sql
        \<and> (\<forall>key. map_of (installed_frameworks self') key =
               (case map_of sql key of
                  Some r \<Rightarrow> Some r
                | None \<Rightarrow>
                    (case map_of dotnet key of
                       Some r \<Rightarrow> Some r
                     | None \<Rightarrow> map_of java key)))"
    by (intro exI conjI)
qed

theorem detect_frameworks_last_write_wins_witness:
  "detect_frameworks host0 init
     = Inr (init\<lparr>installed_frameworks := [(''Java 1.8'', dotnet_java_1_8)]\<rparr>)
   \<and> detect_java_installations host0 = Inr [(''Java 1.8'', java_1_8)]
   \<and> detect_dotnet_core host0 = Inr [(''Java 1.8'', dotnet_java_1_8)]
   \<and> map_of (installed_frameworks (init\<lparr>installed_frameworks := [(''Java 1.8'', dotnet_java_1_8)]\<rparr>))
       = map_of [(''Java 1.8'', java_1_8)] ++ map_of [(''Java 1.8'', dotnet_java_1_8)] ++ map_of []"
  using detect_frameworks_last_write_wins [of host0 init
      "init\<lparr>installed_frameworks := [(''Java 1.8'', dotnet_java_1_8)]\<rparr>"]
    detect_frameworks_host0 host0_detectors
  by auto

subsection \<open>C4: every framework record carries eol_status\<close>

text \<open>
  C4. Each end-of-life checker returns \<open>'EOL'\<close>, \<open>'Supported'\<close> or \<open>'Unknown'\<close> for every
  version string, and every record of every detector's map, and so of
  \<open>installed_frameworks\<close>, has the key \<open>'eol_status'\<close> with one of these values.
\<close>

theorem framework_records_carry_eol_status:
  "(check_java_eol v \<in> {''EOL'', ''Supported'', ''Unknown''}
    \<and> check_dotnet_core_eol v \<in> {''EOL'', ''Supported'', ''Unknown''}
    \<and> check_mssql_eol v \<in> {''EOL'', ''Supported'', ''Unknown''}
    \<and> check_mysql_eol v \<in> {''EOL'', ''Supported'', ''Unknown''}
    \<and> check_postgresql_eol v \<in> {''EOL'', ''Supported'', ''Unknown''})
   \<and> (detect_java_installations h = Inr java \<longrightarrow> (\<forall>(k, r) \<in> set java. has_eol_status r))
   \<and> (detect_dotnet_core h = Inr dotnet \<longrightarrow> (\<forall>(k, r) \<in> set dotnet. has_eol_status r))
   \<and> (detect_sql_server_instances h = Inr mssql \<longrightarrow> (\<forall>(k, r) \<in> set mssql. has_eol_status r))
   \<and> (detect_mysql_instances h = Inr mysql \<longrightarrow> (\<forall>(k, r) \<in> set mysql. has_eol_status r))
   \<and> (detect_postgresql_instances h = Inr postgres \<longrightarrow>
         (\<forall>(k, r) \<in> set postgres. has_eol_status r))
   \<and> (detect_frameworks h self = Inr self' \<longrightarrow>
         (\<forall>(k, r) \<in> set (installed_frameworks self'). has_eol_status r))"
proof (intro conjI impI)
  show "check_java_eol v \<in> {''EOL'', ''Supported'', ''Unknown''}"
    "check_dotnet_core_eol v \<in> {''EOL'', ''Supported'', ''Unknown''}"
    "check_mssql_eol v \<in> {''EOL'', ''Supported'', ''Unknown''}"
    "check_mysql_eol v \<in> {''EOL'', ''Supported'', ''Unknown''}"
    "check_postgresql_eol v \<in> {''EOL'', ''Supported'', ''Unknown''}"
    by (rule check_eol_range)+
next
  assume "detect_java_installations h = Inr java"
  then have "wf_frameworks java" by (rule wf_detect_java_installations)
  then show "\<forall>(k, r) \<in> set java. has_eol_status r" by (simp add: wf_frameworks_def)
next
  assume "detect_dotnet_core h = Inr dotnet"
  then have "wf_frameworks dotnet" by (rule wf_detect_dotnet_core)
  then show "\<forall>(k, r) \<in> set dotnet. has_eol_status r" by (simp add: wf_frameworks_def)
next
  assume "detect_sql_server_instances h = Inr mssql"
  then have "wf_frameworks mssql" by (rule wf_detect_sql_server_instances)
  then show "\<forall>(k, r) \<in> set mssql. has_eol_status r" by (simp add: wf_frameworks_def)
next
  assume "detect_mysql_instances h = Inr mysql"
  then have "wf_frameworks mysql" by (rule wf_detect_mysql_instances)
  then show "\<forall>(k, r) \<in> set mysql. has_eol_status r" by (simp add: wf_frameworks_def)
next
  assume "detect_postgresql_instances h = Inr postgres"
  then have "wf_frameworks postgres" by (rule wf_detect_postgresql_instances)
  then show "\<forall>(k, r) \<in> set postgres. has_eol_status r" by (simp add: wf_frameworks_def)
next
  assume "detect_frameworks h self = Inr self'"
  then have "wf_frameworks (installed_frameworks self')" by (rule detect_frameworks_union)
  then show "\<forall>(k, r) \<in> set (installed_frameworks self'). has_eol_status r"
    by (simp add: wf_frameworks_def)
qed

theorem framework_records_carry_eol_status_witness:
  "has_eol_status java_1_8 \<and> has_eol_status dotnet_java_1_8
   \<and> has_eol_status [(''version'', Str ''12.0.2000.8''), (''path'', Str ''C:/SQL''),
        (''type'', Str ''mssql''), (''eol_status'', Str ''EOL'')]
   \<and> has_eol_status [(''version'', Str ''8.0.33''),
        (''path'', Str (''C:'' @ bs # ''MySQL'' @ bs # ''MySQL Server 8.0.33'')),
        (''type'', Str ''mysql''), (''eol_status'', Str ''Supported'')]
   \<and> has_eol_status [(''version'', Str ''13''), (''path'', Str (''C:'' @ bs # ''PostgreSQL'' @ bs # ''13'')),
        (''type'', Str ''postgresql''), (''eol_status'', Str ''Supported'')]
   \<and> detect_frameworks host0 init
       = Inr (init\<lparr>installed_frameworks := [(''Java 1.8'', dotnet_java_1_8)]\<rparr>)"
  using framework_records_carry_eol_status [of "''1.8''" host0 "[(''Java 1.8'', java_1_8)]"
      "[(''Java 1.8'', dotnet_java_1_8)]" "[]" "[]" "[]" init
      "init\<lparr>installed_frameworks := [(''Java 1.8'', dotnet_java_1_8)]\<rparr>"]
    framework_records_carry_eol_status [of "''1.8''" host2 "[(''Java 1.8'', java_1_8)]"
      "[(''Java 1.8'', dotnet_java_1_8)]"
      "[(''Microsoft SQL Server 12 (Instance: MSSQLSERVER)'',
             [(''version'', Str ''12.0.2000.8''), (''path'', Str ''C:/SQL''), (''type'', Str ''mssql''),
              (''eol_status'', Str ''EOL'')])]"
      "[(''MySQL Server 8.0.33'',
             [(''version'', Str ''8.0.33''), (''path'', Str (''C:'' @ bs # ''MySQL'' @ bs # ''MySQL Server 8.0.33'')),
              (''type'', Str ''mysql''), (''eol_status'', Str ''Supported'')])]"
      "[(''PostgreSQL 13'',
             [(''version'', Str ''13''), (''path'', Str (''C:'' @ bs # ''PostgreSQL'' @ bs # ''13'')),
              (''type'', Str ''postgresql''), (''eol_status'', Str ''Supported'')])]"]
    detect_frameworks_host0 host0_detectors host2_detectors
  by simp

subsection \<open>C5: an exception of the dotnet CLI leaves detect_dotnet_core\<close>

text \<open>
  C5 holds for the Java, MSSQL, MySQL and PostgreSQL detectors, whose outer handler is
  \<open>except Exception\<close> (\<open>detect_java_installations_returns\<close> and the three lemmas after it).
  \<open>detect_dotnet_core\<close> catches FileNotFoundError only: on \<open>host_timeout\<close> the
  TimeoutExpired of \<open>subprocess.run\<close> leaves the detector and \<open>detect_frameworks\<close>.
\<close>

theorem dotnet_timeout_leaves_detector:
  "detect_dotnet_core host_timeout = Inl TimeoutExpired
   \<and> detect_frameworks host_timeout init = Inl TimeoutExpired"
  by code_simp

subsection \<open>C1: the three phases of scan_all\<close>

text \<open>
  C1. \<open>scan_all\<close> runs framework detection, then the static scan, then the process
  scan (\<open>scan_all_phases\<close>) and
  returns the report unless an exception leaves \<open>detect_dotnet_core\<close>
  (\<open>scan_all_raises\<close>). On \<open>host_timeout\<close> it does: \<open>scan_all\<close> raises TimeoutExpired, the
  two later phases do not run and no report is returned.
\<close>

theorem scan_all_aborts_on_dotnet_timeout:
  "scan_all host_timeout init = Inl TimeoutExpired"
  by code_simp

subsection \<open>C8: the static scan is a walk of bounded depth\<close>



end
